theory Spec2Isabelle
  imports Main "HOL-Library.Multiset"
begin

section \<open>Strings as the JavaScript sources use them\<close>

text \<open>
  A JavaScript string is modelled as a \<^typ>\<open>string\<close>: a list of characters whose codes
  are the code units of the source string. The model covers code units below 256
  (ASCII and Latin-1); every literal of the sources that takes part in a decision lies
  in that range.
\<close>

definition DQ :: char where
  "DQ = CHR 0x22"

definition SQ :: char where
  "SQ = CHR 0x27"

definition TAB :: char where
  "TAB = CHR 0x09"

definition NL :: char where
  "NL = CHR 0x0A"

text \<open>The class \<open>\s\<close> of a regular expression, which is also what \<open>trim()\<close> removes.\<close>

definition isSpace :: "char \<Rightarrow> bool" where
  "isSpace c = (of_char c \<in> {9, 10, 11, 12, 13, 32, 160 :: nat})"

definition isDigit :: "char \<Rightarrow> bool" where
  "isDigit c = (48 \<le> (of_char c :: nat) \<and> (of_char c :: nat) \<le> 57)"

definition isUpper :: "char \<Rightarrow> bool" where
  "isUpper c = (65 \<le> (of_char c :: nat) \<and> (of_char c :: nat) \<le> 90)"

definition isLower :: "char \<Rightarrow> bool" where
  "isLower c = (97 \<le> (of_char c :: nat) \<and> (of_char c :: nat) \<le> 122)"

text \<open>The class \<open>\w\<close>: letters, digits and the underscore.\<close>

definition isWordChar :: "char \<Rightarrow> bool" where
  "isWordChar c = (isUpper c \<or> isLower c \<or> isDigit c \<or> c = CHR ''_'')"

text \<open>
  \<open>toLowerCase()\<close> on one code unit: \<open>A\<close>-\<open>Z\<close> and the upper-case letters of Latin-1
  (0xC0-0xDE without the multiplication sign 0xD7) move up by 32, which sets bit 5 of
  the code.
\<close>

definition toLowerChar :: "char \<Rightarrow> char" where
  "toLowerChar c =
     (let n = (of_char c :: nat)
      in if (65 \<le> n \<and> n \<le> 90) \<or> (192 \<le> n \<and> n \<le> 222 \<and> n \<noteq> 215)
         then Char (digit0 c) (digit1 c) (digit2 c) (digit3 c) (digit4 c) True (digit6 c) (digit7 c)
         else c)"

definition toLowerCase :: "string \<Rightarrow> string" where
  "toLowerCase s = map toLowerChar s"

definition trim :: "string \<Rightarrow> string" where
  "trim s = rev (dropWhile isSpace (rev (dropWhile isSpace s)))"

definition startsWith :: "string \<Rightarrow> string \<Rightarrow> bool" where
  "startsWith s p = (take (length p) s = p)"

text \<open>\<open>s.includes(p)\<close>: \<open>p\<close> occurs somewhere in \<open>s\<close>.\<close>

fun includesStr :: "string \<Rightarrow> string \<Rightarrow> bool" where
  "includesStr [] p = (p = [])"
| "includesStr (c # cs) p = (startsWith (c # cs) p \<or> includesStr cs p)"

text \<open>\<open>s.substring(a, b)\<close> for \<open>0 \<le> a \<le> b\<close>; indices beyond the end are clamped.\<close>

definition substring :: "string \<Rightarrow> nat \<Rightarrow> nat \<Rightarrow> string" where
  "substring s a b = take (b - a) (drop a s)"

text \<open>
  \<open>s.split(/\s+/)\<close>: the pieces between maximal runs of white space. A leading or a
  trailing run gives an empty first or last piece, and the empty string gives one empty piece.
\<close>

fun splitWsAux :: "string \<Rightarrow> string \<Rightarrow> string list" where
  "splitWsAux acc [] = [rev acc]"
| "splitWsAux acc (c # cs) =
     (if isSpace c then
        (if cs \<noteq> [] \<and> isSpace (hd cs) then splitWsAux acc cs
         else rev acc # splitWsAux [] cs)
      else splitWsAux (c # acc) cs)"

definition splitWs :: "string \<Rightarrow> string list" where
  "splitWs s = splitWsAux [] s"

text \<open>Decimal rendering of a number, as string interpolation prints an integer.\<close>

definition digitChar :: "nat \<Rightarrow> char" where
  "digitChar d = ''0123456789'' ! d"

fun showNat :: "nat \<Rightarrow> string" where
  "showNat n = (if n < 10 then [digitChar n] else showNat (n div 10) @ [digitChar (n mod 10)])"

definition showInt :: "int \<Rightarrow> string" where
  "showInt i = (if i < 0 then CHR ''-'' # showNat (nat (- i)) else showNat (nat i))"

subsection \<open>Global replacement by a regular expression\<close>

text \<open>
  \<open>s.replace(/re/g, r)\<close> scans \<open>s\<close> from the left. A matcher is given the rest of the
  text at the current position and answers with the replacement and the length of the match
  when the expression matches there. After a match the scan goes on behind the matched
  text (the replacement is not scanned again); otherwise one character is copied. Every
  expression of the sources matches one character at least.
\<close>

type_synonym matcher = "string \<Rightarrow> (string \<times> nat) option"

fun replaceAll :: "matcher \<Rightarrow> string \<Rightarrow> string" where
  "replaceAll m [] = []"
| "replaceAll m (c # cs) =
     (case m (c # cs) of
        None \<Rightarrow> c # replaceAll m cs
      | Some (r, n) \<Rightarrow> r @ replaceAll m (drop (n - 1) cs))"

text \<open>A literal at the start of the text: the rest behind it.\<close>

definition lit :: "string \<Rightarrow> string \<Rightarrow> string option" where
  "lit p s = (if startsWith s p then Some (drop (length p) s) else None)"

text \<open>Replacing every occurrence of a literal.\<close>

definition litMatcher :: "string \<Rightarrow> string \<Rightarrow> matcher" where
  "litMatcher p r s = (case lit p s of None \<Rightarrow> None | Some _ \<Rightarrow> Some (r, length p))"

text \<open>\<open>https?:\/\/\<close> at the start of the text.\<close>

definition httpScheme :: "string \<Rightarrow> string option" where
  "httpScheme s =
     (case lit ''http'' s of
        None \<Rightarrow> None
      | Some r \<Rightarrow> (case lit ''s://'' r of Some r' \<Rightarrow> Some r' | None \<Rightarrow> lit ''://'' r))"

section \<open>Markup Normalizer: cleanWebArchiveUrls\<close>

text \<open>\<open>web\.archive\.org\/web\/\d{14}[a-zA-Z_]*\/\<close> at the start of the text.\<close>

definition isFlagChar :: "char \<Rightarrow> bool" where
  "isFlagChar c = (isUpper c \<or> isLower c \<or> c = CHR ''_'')"

definition archiveHost :: "string \<Rightarrow> string option" where
  "archiveHost s =
     (case lit ''web.archive.org/web/'' s of
        None \<Rightarrow> None
      | Some r \<Rightarrow>
          if 14 \<le> length r \<and> list_all isDigit (take 14 r)
          then lit ''/'' (dropWhile isFlagChar (drop 14 r))
          else None)"

text \<open>The prefix \<open>https?:\/\/web\.archive\.org\/web\/\d{14}[a-zA-Z_]*\/\<close> of patterns 1 and 2.\<close>

definition archivePrefix :: "string \<Rightarrow> string option" where
  "archivePrefix s = (case httpScheme s of None \<Rightarrow> None | Some r \<Rightarrow> archiveHost r)"

text \<open>The class of the captured URL: anything but a double quote, white space and \<open>)\<close>.\<close>

definition isUrlChar :: "char \<Rightarrow> bool" where
  "isUrlChar c = (c \<noteq> DQ \<and> \<not> isSpace c \<and> c \<noteq> CHR '')'')"

text \<open>
  Pattern 1, the archive prefix and a group \<open>https?:\/\/\<close> with one or more characters of
  the class, replaced by its group: the captured URL starts with a protocol and runs as far
  as the class allows.
\<close>

definition fullArchivePattern :: matcher where
  "fullArchivePattern s =
     (case archivePrefix s of
        None \<Rightarrow> None
      | Some r \<Rightarrow>
          (case httpScheme r of
             None \<Rightarrow> None
           | Some u \<Rightarrow>
               if takeWhile isUrlChar u = [] then None
               else let rest = dropWhile isUrlChar u
                    in Some (take (length r - length rest) r, length s - length rest)))"

text \<open>
  Pattern 2, the archive prefix and a group of one or more characters of the class, replaced
  by a function of the group: \<open>https://\<close> is put in front of a group that starts with
  neither \<open>http://\<close> nor \<open>https://\<close>.
\<close>

definition basicArchivePattern :: matcher where
  "basicArchivePattern s =
     (case archivePrefix s of
        None \<Rightarrow> None
      | Some r \<Rightarrow>
          if takeWhile isUrlChar r = [] then None
          else let originalUrl = takeWhile isUrlChar r
               in Some (if \<not> startsWith originalUrl ''http://'' \<and> \<not> startsWith originalUrl ''https://''
                        then ''https://'' @ originalUrl else originalUrl,
                        length s - length (dropWhile isUrlChar r)))"

text \<open>Pattern 3: a remaining archive host prefix is deleted.\<close>

definition remainingArchivePattern :: matcher where
  "remainingArchivePattern s =
     (case archiveHost s of None \<Rightarrow> None | Some rest \<Rightarrow> Some ([], length s - length rest))"

text \<open>Pattern 4, \<open>https?:\/\/https?:\/\/\<close>, replaced by \<open>https://\<close>.\<close>

definition doubleProtocolPattern :: matcher where
  "doubleProtocolPattern s =
     (case httpScheme s of
        None \<Rightarrow> None
      | Some r \<Rightarrow>
          (case httpScheme r of
             None \<Rightarrow> None
           | Some rest \<Rightarrow> Some (''https://'', length s - length rest)))"

text \<open>The three patterns for the legacy host names of the site.\<close>

definition lnexunPort80Pattern :: matcher where
  "lnexunPort80Pattern s =
     (case httpScheme s of
        None \<Rightarrow> None
      | Some r \<Rightarrow>
          (case lit ''www.lnexun.com:80/'' r of
             None \<Rightarrow> None
           | Some rest \<Rightarrow> Some (''https://lnexun.com/'', length s - length rest)))"

definition lnexunHttpPattern :: matcher where
  "lnexunHttpPattern = litMatcher ''http://www.lnexun.com/'' ''https://lnexun.com/''"

definition lnexunWwwPattern :: matcher where
  "lnexunWwwPattern s =
     (case httpScheme s of
        None \<Rightarrow> None
      | Some r \<Rightarrow>
          (case lit ''www.lnexun.com/'' r of
             None \<Rightarrow> None
           | Some rest \<Rightarrow> Some (''https://lnexun.com/'', length s - length rest)))"

text \<open>Protocol-relative references in \<open>src\<close> and \<open>href\<close> attributes.\<close>

definition srcPattern :: matcher where
  "srcPattern = litMatcher (''src='' @ [DQ] @ ''//'') (''src='' @ [DQ] @ ''https://'')"

definition hrefPattern :: matcher where
  "hrefPattern = litMatcher (''href='' @ [DQ] @ ''//'') (''href='' @ [DQ] @ ''https://'')"

text \<open>
  The passes in the order of the source. The source returns a value that is not a string,
  and the empty string, as it is; on the empty string the passes do the same.
\<close>

definition cleanWebArchiveUrls :: "string \<Rightarrow> string" where
  "cleanWebArchiveUrls text =
     (if text = [] then text
      else
        let cleaned = replaceAll fullArchivePattern text;
            cleaned = replaceAll basicArchivePattern cleaned;
            cleaned = replaceAll remainingArchivePattern cleaned;
            cleaned = replaceAll doubleProtocolPattern cleaned;
            cleaned = replaceAll lnexunPort80Pattern cleaned;
            cleaned = replaceAll lnexunHttpPattern cleaned;
            cleaned = replaceAll lnexunWwwPattern cleaned;
            cleaned = replaceAll srcPattern cleaned;
            cleaned = replaceAll hrefPattern cleaned
        in cleaned)"

section \<open>Data model\<close>

text \<open>
  A field that may be absent, \<open>null\<close> or \<open>undefined\<close> is an option; \<open>None\<close> stands for all
  three. A string is falsy when it is absent or empty.
\<close>

definition truthy :: "string option \<Rightarrow> bool" where
  "truthy v = (case v of None \<Rightarrow> False | Some s \<Rightarrow> s \<noteq> [])"

text \<open>\<open>v || ''\<close>\<close>

definition orEmpty :: "string option \<Rightarrow> string" where
  "orEmpty v = (case v of None \<Rightarrow> [] | Some s \<Rightarrow> s)"

record postDate =
  date_text :: "string option"
  date_datetime :: "string option"
  date_html :: "string option"

record metadata =
  sourceUrl :: "string option"
  timestamp :: "string option"
  selector :: "string option"
  extractedAt :: "string option"
  mergedFrom :: "nat option"
  sourceTimestamps :: "string list option"
  error :: "string option"
  type_field :: "string option"

record post =
  id_field :: "string option"
  classes :: "string option"
  title :: "string option"
  content :: "string option"
  excerpt :: "string option"
  date :: "postDate option"
  author :: "string option"
  categories :: "string list option"
  tags :: "string list option"
  permalink :: "string option"
  fullHtml :: "string option"
  metadata :: "metadata option"
  uniqueId :: "string option"

text \<open>\<open>post.metadata?.timestamp\<close>\<close>

definition metaTimestamp :: "post \<Rightarrow> string option" where
  "metaTimestamp p = (case metadata p of None \<Rightarrow> None | Some m \<Rightarrow> timestamp m)"

record snapshotResult =
  snap_timestamp :: "string option"
  originalUrl :: "string option"
  waybackUrl :: "string option"
  posts :: "post list option"
  success :: bool
  snap_error :: "string option"
  responseSize :: nat
  contentType :: "string option"

datatype jsError = TypeError string | RangeError string | Error string

section \<open>Consolidator\<close>

subsection \<open>cleanPost\<close>

definition cleanField :: "string option \<Rightarrow> string option" where
  "cleanField v = (if truthy v then map_option cleanWebArchiveUrls v else v)"

definition cleanPost :: "post \<Rightarrow> post" where
  "cleanPost post =
     post\<lparr> title := cleanField (title post),
           content := cleanField (content post),
           excerpt := cleanField (excerpt post),
           author := cleanField (author post),
           permalink := cleanField (permalink post),
           fullHtml := cleanField (fullHtml post),
           categories := map_option (map cleanWebArchiveUrls) (categories post),
           tags := map_option (map cleanWebArchiveUrls) (tags post),
           date := map_option
             (\<lambda>d. d\<lparr> date_text := cleanField (date_text d), date_html := cleanField (date_html d) \<rparr>)
             (date post),
           metadata := map_option (\<lambda>m. m\<lparr> sourceUrl := cleanField (sourceUrl m) \<rparr>) (metadata post) \<rparr>"

subsection \<open>generatePostId\<close>

text \<open>
  A run of characters of a class replaced by one character, as \<open>replace(/\s+/g, '-')\<close> and
  \<open>replace(/-+/g, '-')\<close> do: all of a run but its last character is dropped, the last one is
  replaced.
\<close>

fun collapseRuns :: "(char \<Rightarrow> bool) \<Rightarrow> char \<Rightarrow> string \<Rightarrow> string" where
  "collapseRuns P r [] = []"
| "collapseRuns P r (c # cs) =
     (if P c then
        (if cs \<noteq> [] \<and> P (hd cs) then collapseRuns P r cs else r # collapseRuns P r cs)
      else c # collapseRuns P r cs)"

text \<open>\<open>replace(/^-|-$/g, '')\<close>: one hyphen at the start and one at the end are removed.\<close>

definition stripEdgeHyphens :: "string \<Rightarrow> string" where
  "stripEdgeHyphens s =
     (let s1 = (case s of [] \<Rightarrow> [] | c # cs \<Rightarrow> if c = CHR ''-'' then cs else s)
      in if s1 \<noteq> [] \<and> last s1 = CHR ''-'' then butlast s1 else s1)"

text \<open>\<open>replace(/[^\w\s-]/g, '')\<close>\<close>

definition isSlugChar :: "char \<Rightarrow> bool" where
  "isSlugChar c = (isWordChar c \<or> isSpace c \<or> c = CHR ''-'')"

definition slugify :: "string \<Rightarrow> string" where
  "slugify t =
     stripEdgeHyphens
       (collapseRuns (\<lambda>c. c = CHR ''-'') (CHR ''-'')
         (collapseRuns isSpace (CHR ''-'')
           (filter isSlugChar (toLowerCase t))))"

text \<open>
  The grouping key. \<open>md5hex\<close> is the hexadecimal MD5 digest of the platform's \<open>crypto\<close>
  module and \<open>now\<close> is what \<open>Date.now()\<close> reads when the function is called.
\<close>

definition generatePostId :: "(string \<Rightarrow> string) \<Rightarrow> int \<Rightarrow> post \<Rightarrow> string" where
  "generatePostId md5hex now post =
     (let byId = (case id_field post of
                    None \<Rightarrow> None
                  | Some i \<Rightarrow> if i \<noteq> [] \<and> i \<noteq> ''page-content'' \<and> i \<noteq> ''error-post''
                                 \<and> \<not> startsWith i ''post-'' then Some i else None);
          byTitle = (case title post of
                       None \<Rightarrow> None
                     | Some t \<Rightarrow> if t \<noteq> [] \<and> trim t \<noteq> [] \<and> 3 < length (slugify t)
                                 then Some (slugify t) else None);
          byContent = (case content post of
                         None \<Rightarrow> None
                       | Some c \<Rightarrow> if c \<noteq> []
                                   then Some (''content-'' @ substring (md5hex (substring c 0 500)) 0 8)
                                   else None)
      in case byId of
           Some k \<Rightarrow> k
         | None \<Rightarrow>
             (case byTitle of
                Some k \<Rightarrow> k
              | None \<Rightarrow>
                  (case byContent of
                     Some k \<Rightarrow> k
                   | None \<Rightarrow>
                       ''post-'' @ (if truthy (metaTimestamp post)
                                    then orEmpty (metaTimestamp post) else showInt now))))"

subsection \<open>mergePosts\<close>

text \<open>The sort key of \<open>mergePosts\<close>: \<open>(content || '').length + (fullHtml || '').length\<close>.\<close>

definition contentLength :: "post \<Rightarrow> nat" where
  "contentLength p = length (orEmpty (content p)) + length (orEmpty (fullHtml p))"

text \<open>
  \<open>posts.sort((a, b) => bContentLength - aContentLength)\<close>: the stable sort of the array
  by descending key.
\<close>

definition sortByContentLength :: "post list \<Rightarrow> post list" where
  "sortByContentLength ps = sort_key (\<lambda>p. - int (contentLength p)) ps"

text \<open>A \<open>Set\<close> in insertion order: \<open>add\<close> appends a value that is not yet a member.\<close>

definition setAdd :: "'a list \<Rightarrow> 'a \<Rightarrow> 'a list" where
  "setAdd s x = (if x \<in> set s then s else s @ [x])"

definition addAll :: "'a list \<Rightarrow> 'a list option \<Rightarrow> 'a list" where
  "addAll s xs = (case xs of None \<Rightarrow> s | Some ys \<Rightarrow> foldl setAdd s ys)"

definition emptyMetadata :: metadata where
  "emptyMetadata =
     \<lparr> sourceUrl = None, timestamp = None, selector = None, extractedAt = None,
       mergedFrom = None, sourceTimestamps = None, error = None, type_field = None \<rparr>"

text \<open>
  \<open>mergePosts\<close> sorts its argument array in place and writes into the object that ends up
  first: the model returns the merged post together with the array as the call leaves it.
  A group of one is returned untouched. On an empty array the source reads
  \<open>sortedPosts[0]\<close>, which is \<open>undefined\<close>, and the assignment to its property raises.
\<close>

definition mergePosts :: "post list \<Rightarrow> jsError + (post \<times> post list)" where
  "mergePosts ps =
     (case ps of
        [p] \<Rightarrow> Inr (p, [p])
      | _ \<Rightarrow>
        (case sortByContentLength ps of
           [] \<Rightarrow> Inl (TypeError ''Cannot set properties of undefined'')
         | bestPost # others \<Rightarrow>
             let sortedPosts = bestPost # others;
                 allCategories = foldl (\<lambda>s p. addAll s (categories p)) [] sortedPosts;
                 allTags = foldl (\<lambda>s p. addAll s (tags p)) [] sortedPosts;
                 meta = (case metadata bestPost of None \<Rightarrow> emptyMetadata | Some m \<Rightarrow> m);
                 merged = bestPost\<lparr>
                   categories := Some allCategories,
                   tags := Some allTags,
                   metadata := Some (meta\<lparr>
                     mergedFrom := Some (length sortedPosts),
                     sourceTimestamps :=
                       Some (map orEmpty (filter truthy (map metaTimestamp sortedPosts))) \<rparr>) \<rparr>
             in Inr (merged, merged # others)))"

subsection \<open>consolidateAllPosts\<close>

text \<open>
  A JavaScript number that need not be finite. \<open>Math.round(a / b)\<close> on two counts is the
  quotient rounded to the nearest integer, halves up; \<open>0 / 0\<close> is \<open>NaN\<close>, a positive count
  by zero is \<open>Infinity\<close>, and \<open>Math.round\<close> keeps both.
\<close>

datatype jsNumber = NaN | Infinity | Num int

definition roundedQuotient :: "nat \<Rightarrow> nat \<Rightarrow> jsNumber" where
  "roundedQuotient a b =
     (if b = 0 then (if a = 0 then NaN else Infinity)
      else Num ((2 * int a + int b) div (2 * int b)))"

text \<open>The order of \<open><\<close> on strings: by code units, a proper prefix first.\<close>

fun strLess :: "string \<Rightarrow> string \<Rightarrow> bool" where
  "strLess [] [] = False"
| "strLess [] (y # ys) = True"
| "strLess (x # xs) [] = False"
| "strLess (x # xs) (y # ys) =
     ((of_char x :: nat) < of_char y \<or> (x = y \<and> strLess xs ys))"

record dateRange =
  earliest :: "string option"
  latest :: "string option"

record statistics =
  totalSnapshots :: nat
  successfulSnapshots :: nat
  totalPostsBeforeDedup :: nat
  uniquePosts :: nat
  duplicatesRemoved :: nat
  postsWithContent :: nat
  postsWithTitles :: nat
  averageContentLength :: jsNumber
  dateRange :: dateRange

record consolidated =
  statistics :: statistics
  result_posts :: "post list"

text \<open>
  The loop over the snapshot files. Each file is given as what reading and parsing it
  yields; a file that cannot be read or parsed is logged and skipped before it is counted.
\<close>

definition contributes :: "snapshotResult \<Rightarrow> bool" where
  "contributes s = (success s \<and> (case posts s of None \<Rightarrow> False | Some ps \<Rightarrow> 0 < length ps))"

fun readSnapshots :: "(jsError + snapshotResult) list \<Rightarrow> post list \<times> nat \<times> nat" where
  "readSnapshots [] = ([], 0, 0)"
| "readSnapshots (f # fs) =
     (let (allPosts, nTotal, nSuccessful) = readSnapshots fs
      in case f of
           Inl _ \<Rightarrow> (allPosts, nTotal, nSuccessful)
         | Inr snapshot \<Rightarrow>
             if contributes snapshot
             then (map cleanPost (case posts snapshot of None \<Rightarrow> [] | Some ps \<Rightarrow> ps) @ allPosts,
                   nTotal + 1, nSuccessful + 1)
             else (allPosts, nTotal + 1, nSuccessful))"

text \<open>\<open>postGroups\<close>: a \<open>Map\<close> from key to group, in insertion order.\<close>

fun groupAdd :: "string \<Rightarrow> post \<Rightarrow> (string \<times> post list) list \<Rightarrow> (string \<times> post list) list" where
  "groupAdd k p [] = [(k, [p])]"
| "groupAdd k p ((k', ps) # gs) =
     (if k' = k then (k', ps @ [p]) # gs else (k', ps) # groupAdd k p gs)"

text \<open>\<open>clock i\<close> is the reading of \<open>Date.now()\<close> while the key of post number \<open>i\<close> is made.\<close>

definition groupPosts ::
  "(string \<Rightarrow> string) \<Rightarrow> (nat \<Rightarrow> int) \<Rightarrow> post list \<Rightarrow> (string \<times> post list) list" where
  "groupPosts md5hex clock allPosts =
     foldl (\<lambda>gs (i, p). groupAdd (generatePostId md5hex (clock i) p) p gs) [] (enumerate 0 allPosts)"

fun mergeGroups :: "(string \<times> post list) list \<Rightarrow> jsError + (post list \<times> nat)" where
  "mergeGroups [] = Inr ([], 0)"
| "mergeGroups ((postId, ps) # gs) =
     (case mergePosts ps of
        Inl e \<Rightarrow> Inl e
      | Inr (mergedPost, _) \<Rightarrow>
          (case mergeGroups gs of
             Inl e \<Rightarrow> Inl e
           | Inr (merged, duplicatesFound) \<Rightarrow>
               Inr (mergedPost\<lparr> uniqueId := Some postId \<rparr> # merged,
                    (if 1 < length ps then length ps - 1 else 0) + duplicatesFound)))"

text \<open>
  The final sort, newest first, by \<open>bTimestamp.localeCompare(aTimestamp)\<close> on
  \<open>metadata?.timestamp || '0'\<close>. The comparison of the platform is a parameter; the sort is
  stable, so a post moves behind a later one only when the comparator is positive.
\<close>

definition sortTimestamp :: "post \<Rightarrow> string" where
  "sortTimestamp p = (if truthy (metaTimestamp p) then orEmpty (metaTimestamp p) else ''0'')"

fun insertByTimestamp :: "(string \<Rightarrow> string \<Rightarrow> int) \<Rightarrow> post \<Rightarrow> post list \<Rightarrow> post list" where
  "insertByTimestamp localeCompare a [] = [a]"
| "insertByTimestamp localeCompare a (b # bs) =
     (if 0 < localeCompare (sortTimestamp b) (sortTimestamp a)
      then b # insertByTimestamp localeCompare a bs
      else a # b # bs)"

definition sortByTimestamp :: "(string \<Rightarrow> string \<Rightarrow> int) \<Rightarrow> post list \<Rightarrow> post list" where
  "sortByTimestamp localeCompare ps = foldr (insertByTimestamp localeCompare) ps []"

definition pickEarliest :: "string option \<Rightarrow> post \<Rightarrow> string option" where
  "pickEarliest acc p =
     (case metaTimestamp p of
        None \<Rightarrow> acc
      | Some t \<Rightarrow>
          if t \<noteq> [] \<and> (\<not> truthy acc \<or> strLess t (orEmpty acc)) then Some t else acc)"

definition pickLatest :: "string option \<Rightarrow> post \<Rightarrow> string option" where
  "pickLatest acc p =
     (case metaTimestamp p of
        None \<Rightarrow> acc
      | Some t \<Rightarrow>
          if t \<noteq> [] \<and> (\<not> truthy acc \<or> strLess (orEmpty acc) t) then Some t else acc)"

definition computeStatistics :: "nat \<Rightarrow> nat \<Rightarrow> nat \<Rightarrow> nat \<Rightarrow> post list \<Rightarrow> statistics" where
  "computeStatistics nTotal nSuccessful before duplicatesFound unique =
     \<lparr> totalSnapshots = nTotal,
       successfulSnapshots = nSuccessful,
       totalPostsBeforeDedup = before,
       uniquePosts = length unique,
       duplicatesRemoved = duplicatesFound,
       postsWithContent =
         length (filter (\<lambda>p. truthy (content p) \<and> 100 < length (orEmpty (content p))) unique),
       postsWithTitles =
         length (filter (\<lambda>p. truthy (title p) \<and> trim (orEmpty (title p)) \<noteq> []) unique),
       averageContentLength =
         roundedQuotient (foldl (\<lambda>sum p. sum + length (orEmpty (content p))) 0 unique)
           (length unique),
       dateRange = \<lparr> earliest = foldl pickEarliest None unique,
                     latest = foldl pickLatest None unique \<rparr> \<rparr>"

text \<open>
  The consolidation of the snapshots read, without the writing of its result. An exception
  of the merge would leave through the outer handler, which throws it again.
\<close>

definition consolidateAllPosts ::
  "(string \<Rightarrow> string) \<Rightarrow> (string \<Rightarrow> string \<Rightarrow> int) \<Rightarrow> (nat \<Rightarrow> int) \<Rightarrow>
   (jsError + snapshotResult) list \<Rightarrow> jsError + consolidated" where
  "consolidateAllPosts md5hex localeCompare clock files =
     (let (allPosts, nTotal, nSuccessful) = readSnapshots files;
          postGroups = groupPosts md5hex clock allPosts
      in case mergeGroups postGroups of
           Inl e \<Rightarrow> Inl e
         | Inr (merged, duplicatesFound) \<Rightarrow>
             let unique = sortByTimestamp localeCompare merged
             in Inr \<lparr> statistics =
                        computeStatistics nTotal nSuccessful (length allPosts) duplicatesFound unique,
                      result_posts = unique \<rparr>)"

section \<open>Identity Resolver\<close>

record authorIdentity =
  author_id :: int
  login :: string
  email :: string
  display_name :: string
  first_name :: string
  last_name :: string

text \<open>
  The fixed table \<open>AUTHORS\<close>, as \<open>Object.entries\<close> lists it: a key that is a canonical array
  index (here \<open>246964\<close>) comes first, the other keys follow in the order of the literal.
\<close>

definition AUTHORS :: "(string \<times> authorIdentity) list" where
  "AUTHORS = [
     (''246964'', \<lparr> author_id = 15, login = ''246964'', email = ''246964@gmail.com'',
        display_name = ''Sid'', first_name = ''Sidharth'', last_name = ''Iyer'' \<rparr>),
     (''admin'', \<lparr> author_id = 3, login = ''admin'', email = ''felukewl+lnexun@gmail.com'',
        display_name = ''admin'', first_name = '''', last_name = '''' \<rparr>),
     (''aurojit'', \<lparr> author_id = 20, login = ''aurojit'', email = ''aurojit@gmail.com'',
        display_name = ''aurojit'', first_name = ''Aurojit'', last_name = ''Panda'' \<rparr>),
     (''udrastogi'', \<lparr> author_id = 21, login = ''udrastogi'', email = ''udrastogi@gmail.com'',
        display_name = ''udrastogi'', first_name = ''Udit'', last_name = ''Rastogi'' \<rparr>),
     (''ikkumpal'', \<lparr> author_id = 9, login = ''ikkumpal'', email = ''ikkumpal@gmail.com'',
        display_name = ''ikkumpal'', first_name = ''Mukesh'', last_name = ''Kumar'' \<rparr>),
     (''viksit'', \<lparr> author_id = 22, login = ''viksit'', email = ''viksit@gmail.com'',
        display_name = ''viksit'', first_name = '''', last_name = '''' \<rparr>),
     (''souvikdg'', \<lparr> author_id = 23, login = ''souvikdg'', email = ''souvikdg@gmail.com'',
        display_name = ''souvikdg'', first_name = ''Souvik'', last_name = ''Das Gupta'' \<rparr>),
     (''prateekrungta'', \<lparr> author_id = 24, login = ''prateekrungta'', email = ''prateekrungta@gmail.com'',
        display_name = ''prateekrungta'', first_name = ''Prateek'', last_name = ''Rungta'' \<rparr>),
     (''anant90'', \<lparr> author_id = 25, login = ''anant90'', email = ''anant90@gmail.com'',
        display_name = ''anant90'', first_name = ''Anant'', last_name = ''Jain'' \<rparr>),
     (''aayushkumar'', \<lparr> author_id = 26, login = ''aayushkumar'', email = ''aayushkumar@gmail.com'',
        display_name = ''aayushkumar'', first_name = ''Aayush'', last_name = ''Kumar'' \<rparr>),
     (''aditya.aditude'', \<lparr> author_id = 6, login = ''aditya.aditude'', email = ''aditya.aditude@gmail.com'',
        display_name = ''aditya.aditude'', first_name = ''Aditya'', last_name = ''Jain'' \<rparr>),
     (''sidnangia'', \<lparr> author_id = 8, login = ''sidnangia'', email = ''sidnangia@gmail.com'',
        display_name = ''sidnangia'', first_name = ''Siddharth'', last_name = ''Nangia'' \<rparr>),
     (''raghavkhullar'', \<lparr> author_id = 27, login = ''raghavkhullar'', email = ''raghavkhullar@gmail.com'',
        display_name = ''raghavkhullar'', first_name = ''Raghav'', last_name = ''Khullar'' \<rparr>),
     (''sahil29'', \<lparr> author_id = 16, login = ''sahil29'', email = ''sahil29@gmail.com'',
        display_name = ([CHR 0xC2] @ [CHR 0xBB] @ '' sahil''), first_name = ''Sahil'', last_name = ''Bajaj'' \<rparr>),
     (''srajanmani'', \<lparr> author_id = 28, login = ''srajanmani'', email = ''srajanmani@gmail.com'',
        display_name = ''srajanmani'', first_name = ''Srajan'', last_name = ''Rastogi'' \<rparr>),
     (''shubham.cash'', \<lparr> author_id = 12, login = ''shubham.cash'', email = ''shubham.cash@gmail.com'',
        display_name = ''Shubham Goel'', first_name = ''Shubham'', last_name = ''Goel'' \<rparr>),
     (''akritigaur'', \<lparr> author_id = 13, login = ''akritigaur'', email = ''akritigaur@gmail.com'',
        display_name = ''akritigaur'', first_name = ''Akriti'', last_name = ''Gaur'' \<rparr>),
     (''ralbhat'', \<lparr> author_id = 5, login = ''ralbhat'', email = ''ralbhat@gmail.com'',
        display_name = ''Rahul'', first_name = ''Rahul'', last_name = ''Bhatnagar'' \<rparr>),
     (''samarth.math'', \<lparr> author_id = 14, login = ''samarth.math'', email = ''samarth.math@gmail.com'',
        display_name = ''samarth.math'', first_name = ''Samarth'', last_name = ''Mathur'' \<rparr>),
     (''goonerbynature'', \<lparr> author_id = 18, login = ''goonerbynature'', email = ''tanayrulz@gmail.com'',
        display_name = ''goonerbynature'', first_name = ''Tanay'', last_name = ''Padhi'' \<rparr>),
     (''vishesh420'', \<lparr> author_id = 19, login = ''vishesh420'', email = ''vishesh420@gmail.com'',
        display_name = ''vishesh420'', first_name = ''Vishesh'', last_name = ''Kumar'' \<rparr>),
     (''pranavobhrai'', \<lparr> author_id = 29, login = ''pranavobhrai'', email = ''pranavobhrai@gmail.com'',
        display_name = ''pranavobhrai'', first_name = ''Pranav'', last_name = ''Obhrai'' \<rparr>),
     (''aditya.grover1'', \<lparr> author_id = 17, login = ''aditya.grover1'', email = ''aditya.grover1@gmail.com'',
        display_name = ''aditya.grover1'', first_name = ''Aditya'', last_name = ''Grover'' \<rparr>),
     (''felu'', \<lparr> author_id = 10, login = ''felu'', email = ''felukewl@gmail.com'',
        display_name = ''Bhuwan Khattar'', first_name = ''Bhuwan'', last_name = ''Khattar'' \<rparr>),
     (''kush2005'', \<lparr> author_id = 7, login = ''kush2005'', email = ''kush2005@gmail.com'',
        display_name = ''Kush Agrawal'', first_name = ''Kush'', last_name = ''Agrawal'' \<rparr>),
     (''pratham.agrawal92'', \<lparr> author_id = 4, login = ''pratham.agrawal92'', email = ''pratham.agrawal92@gmail.com'',
        display_name = ''pratham.agrawal92'', first_name = ''Pratham'', last_name = ''Agrawal'' \<rparr>),
     (''ronng93'', \<lparr> author_id = 11, login = ''ronng93'', email = ''ronng93@gmail.com'',
        display_name = ''ronng93'', first_name = ''Srijit'', last_name = ''Ghosh'' \<rparr>),
     (''varzrulz'', \<lparr> author_id = 30, login = ''varzrulz'', email = ''varzrulz@gmail.com'',
        display_name = ''varzrulz'', first_name = ''Varun'', last_name = ''Dubey'' \<rparr>),
     (''karanveer.1992'', \<lparr> author_id = 31, login = ''karanveer.1992'', email = ''karanveer.1992@gmail.com'',
        display_name = ''Karanveer'', first_name = ''Karanveer'', last_name = ''Mohan'' \<rparr>),
     (''mayank.sharmas94'', \<lparr> author_id = 32, login = ''mayank.sharmas94'', email = ''mayank.sharmas94@gmail.com'',
        display_name = ''mayank.sharmas94'', first_name = ''Mayank'', last_name = ''Sharma'' \<rparr>),
     (''achalv2.0'', \<lparr> author_id = 33, login = ''achalv2.0'', email = ''achalv2.0@gmail.com'',
        display_name = ''Achal Varma'', first_name = ''Achal'', last_name = ''Varma'' \<rparr>),
     (''strong.aman'', \<lparr> author_id = 34, login = ''strong.aman'', email = ''strong.aman@gmail.com'',
        display_name = ''strong.aman'', first_name = ''aman'', last_name = ''agarwal'' \<rparr>),
     (''gursartaj'', \<lparr> author_id = 35, login = ''gursartaj'', email = ''gursartaj@gmail.com'',
        display_name = ''gursartaj'', first_name = ''gursartaj'', last_name = ''nijjar'' \<rparr>),
     (''ishan28mkip'', \<lparr> author_id = 36, login = ''ishan28mkip'', email = ''ishan28mkip@gmail.com'',
        display_name = ''ishan28mkip'', first_name = ''Ishan'', last_name = ''Sharma'' \<rparr>),
     (''bharatkashyap.exun'', \<lparr> author_id = 38, login = ''bharatkashyap.exun'', email = ''bharatkashyap.exun@gmail.com'',
        display_name = ''Bharat Kashyap'', first_name = ''Bharat'', last_name = ''Kashyap'' \<rparr>),
     (''amazinash94'', \<lparr> author_id = 37, login = ''amazinash94'', email = ''amazinash94@gmail.com'',
        display_name = ''Aishwarya Kane'', first_name = ''Aishwarya'', last_name = ''Kane'' \<rparr>),
     (''sanchit.windows'', \<lparr> author_id = 39, login = ''sanchit.windows'', email = ''sanchit.windows@gmail.com'',
        display_name = ''Sanchit Abrol'', first_name = ''Sanchit'', last_name = ''Abrol'' \<rparr>),
     (''sibesh96@gmail.com'', \<lparr> author_id = 40, login = ''sibesh96@gmail.com'', email = ''sibesh96@gmail.com'',
        display_name = ''Sibesh Kar'', first_name = ''Sibesh'', last_name = ''Kar'' \<rparr>),
     (''ananay'', \<lparr> author_id = 2, login = ''ananay'', email = ''ananay@exunclan.com'',
        display_name = ''ananay'', first_name = '''', last_name = '''' \<rparr>),
     (''trijeetm'', \<lparr> author_id = 41, login = ''trijeetm'', email = ''trijeetm@gmail.com'',
        display_name = ''Trijeet Mukhopadhyay'', first_name = ''Trijeet'', last_name = ''Mukhopadhyay'' \<rparr>),
     (''ibatra171'', \<lparr> author_id = 43, login = ''ibatra171'', email = ''ibatra171@gmail.com'',
        display_name = ''ibatra171'', first_name = ''Ishita'', last_name = ''Batra'' \<rparr>),
     (''keshavadhyay'', \<lparr> author_id = 44, login = ''keshavadhyay'', email = ''keshavadhyay@gmail.com'',
        display_name = ''keshavadhyay'', first_name = ''Keshav'', last_name = ''Adhyay'' \<rparr>),
     (''rohan.nagpal94'', \<lparr> author_id = 45, login = ''rohan.nagpal94'', email = ''rohan.nagpal94@gmail.com'',
        display_name = ''Rohan Nagpal'', first_name = ''Rohan'', last_name = ''Nagpal'' \<rparr>),
     (''sealelf'', \<lparr> author_id = 46, login = ''sealelf'', email = ''sealelf@gmail.com'',
        display_name = ''Akshay Dadhwal'', first_name = ''Akshay'', last_name = ''Dadhwal'' \<rparr>),
     (''ambarpal1996'', \<lparr> author_id = 47, login = ''ambarpal1996'', email = ''ambarpal1996@gmail.com'',
        display_name = ''Ambar Pal'', first_name = ''Ambar'', last_name = ''Pal'' \<rparr>),
     (''abhishekbiswal'', \<lparr> author_id = 48, login = ''abhishekbiswal'', email = ''abhishekbiswal@live.com'',
        display_name = ''abhishekbiswal'', first_name = ''Abhishek'', last_name = ''Biswal'' \<rparr>),
     (''siddharthbhogra'', \<lparr> author_id = 49, login = ''siddharthbhogra'', email = ''siddharthbhogra@gmail.com'',
        display_name = ''Siddharth Bhogra'', first_name = ''Siddharth'', last_name = ''Bhogra'' \<rparr>),
     (''iammohitsharma'', \<lparr> author_id = 50, login = ''iammohitsharma'', email = ''iammohitsharma@gmail.com'',
        display_name = ''iammohitsharma'', first_name = ''Mohit'', last_name = ''Sharma'' \<rparr>),
     (''MadhavNarayan'', \<lparr> author_id = 51, login = ''MadhavNarayan'', email = ''soccermadhav@gmail.com'',
        display_name = ''Madhav Narayan'', first_name = ''Madhav'', last_name = ''Narayan'' \<rparr>),
     (''prannaykhosla'', \<lparr> author_id = 52, login = ''prannaykhosla'', email = ''prannay.khosla@gmail.com'',
        display_name = ''Prannay Khosla'', first_name = ''Prannay'', last_name = ''Khosla'' \<rparr>),
     (''parth'', \<lparr> author_id = 53, login = ''parth'', email = ''parth082997@gmail.com'',
        display_name = ''Parth Mittal'', first_name = ''Parth'', last_name = ''Mittal'' \<rparr>),
     (''abhishekdpseok'', \<lparr> author_id = 54, login = ''abhishekdpseok'', email = ''abhishekdpseok@gmail.com'',
        display_name = ''Abhishek Anand'', first_name = ''Abhishek'', last_name = ''Anand'' \<rparr>),
     (''arkin'', \<lparr> author_id = 55, login = ''arkin'', email = ''geekarkin@gmail.com'',
        display_name = ''Arkin Gupta'', first_name = ''Arkin'', last_name = ''Gupta'' \<rparr>),
     (''TanayVardhan'', \<lparr> author_id = 57, login = ''TanayVardhan'', email = ''tanaytku@gmail.com'',
        display_name = ''Tanay Vardhan'', first_name = ''Tanay'', last_name = ''Vardhan'' \<rparr>),
     (''sana'', \<lparr> author_id = 56, login = ''sana'', email = ''thesanagujral@gmail.com'',
        display_name = ''Sana Gujral'', first_name = ''Sana'', last_name = ''Gujral'' \<rparr>),
     (''devanshgandhi'', \<lparr> author_id = 42, login = ''devanshgandhi'', email = ''devanshgandhi103@gmail.com'',
        display_name = ''Devansh Gandhi'', first_name = ''Devansh'', last_name = ''Gandhi'' \<rparr>),
     (''saumitrkhullar'', \<lparr> author_id = 59, login = ''saumitrkhullar'', email = ''saumitrkhullar@gmail.com'',
        display_name = ''Saumitra Khullar'', first_name = ''Saumitra'', last_name = ''Khullar'' \<rparr>),
     (''akshaygupta'', \<lparr> author_id = 58, login = ''akshaygupta'', email = ''wizardgupta@gmail.com'',
        display_name = ''Akshay Gupta'', first_name = ''Akshay'', last_name = ''Gupta'' \<rparr>),
     (''harshil'', \<lparr> author_id = 60, login = ''harshil'', email = ''harshilkashyap3598@gmail.com'',
        display_name = ''Harshil Kashyap'', first_name = ''Harshil'', last_name = ''Kashyap'' \<rparr>),
     (''eagerbeavers'', \<lparr> author_id = 61, login = ''eagerbeavers'', email = ''udit@exunclan.com'',
        display_name = ''Udit Malik'', first_name = ''Udit'', last_name = ''Malik'' \<rparr>),
     (''tanmay'', \<lparr> author_id = 62, login = ''tanmay'', email = ''bansal.tanmay99@gmail.com'',
        display_name = ''Tanmay Bansal'', first_name = ''Tanmay'', last_name = ''Bansal'' \<rparr>),
     (''manav'', \<lparr> author_id = 63, login = ''manav'', email = ''manavaggarwal1234@gmail.com'',
        display_name = ''Manav Aggarwal'', first_name = ''Manav'', last_name = ''Aggarwal'' \<rparr>),
     (''gshagun20'', \<lparr> author_id = 64, login = ''gshagun20'', email = ''gshagun20@gmail.com'',
        display_name = ''Shagun Goel'', first_name = ''Shagun'', last_name = ''Goel'' \<rparr>),
     (''ritin'', \<lparr> author_id = 65, login = ''ritin'', email = ''ritin@gauravpachnanda.com'',
        display_name = ''Ritin Pachnanda'', first_name = ''Ritin'', last_name = ''Pachnanda'' \<rparr>),
     (''aveneel'', \<lparr> author_id = 66, login = ''aveneel'', email = ''aveneel@hotmail.com'',
        display_name = ''Aveneel Waadhwa'', first_name = ''Aveneel'', last_name = ''Waadhwa'' \<rparr>),
     (''srijan'', \<lparr> author_id = 67, login = ''srijan'', email = ''srijanjain1207@gmail.com'',
        display_name = ''Srijan Jain'', first_name = ''Srijan'', last_name = ''Jain'' \<rparr>),
     (''ayush'', \<lparr> author_id = 68, login = ''ayush'', email = ''ayushsingla.as@gmail.com'',
        display_name = ''Ayush Singla'', first_name = ''Ayush'', last_name = ''Singla'' \<rparr>),
     (''anirudhgoyal'', \<lparr> author_id = 69, login = ''anirudhgoyal'', email = ''anirudh.goyal05@gmail.com'',
        display_name = ''Anirudh Goyal'', first_name = ''Anirudh'', last_name = ''Goyal'' \<rparr>),
     (''rohan'', \<lparr> author_id = 70, login = ''rohan'', email = ''rohan.offi@gmail.com'',
        display_name = ''Rohan Dhar'', first_name = ''Rohan'', last_name = ''Dhar'' \<rparr>),
     (''aaraivsharma'', \<lparr> author_id = 72, login = ''aaraivsharma'', email = ''aaraivcool7@gmail.com'',
        display_name = ''Aaraiv Sharma'', first_name = ''Aaraiv'', last_name = ''Sharma'' \<rparr>),
     (''akshaykhandelwal'', \<lparr> author_id = 71, login = ''akshaykhandelwal'', email = ''akshay@exunclan.com'',
        display_name = ''Akshay Khandelwal'', first_name = ''Akshay'', last_name = ''Khandelwal'' \<rparr>),
     (''kabir'', \<lparr> author_id = 73, login = ''kabir'', email = ''kabirgoel.kg@gmail.com'',
        display_name = ''Kabir Goel'', first_name = ''Kabir'', last_name = ''Goel'' \<rparr>)  ]"

text \<open>
  \<open>AUTHORS[key]\<close> is truthy for a key of the table, and for a property name that the
  object inherits from \<open>Object.prototype\<close>; of those only \<open>constructor\<close> and \<open>__proto__\<close>
  are in lower case, as the key looked up always is.
\<close>

definition hasProperty :: "(string \<times> authorIdentity) list \<Rightarrow> string \<Rightarrow> bool" where
  "hasProperty tbl key = (map_of tbl key \<noteq> None \<or> key = ''constructor'' \<or> key = ''__proto__'')"

text \<open>\<open>CREATED_USERS\<close>: a \<open>Map\<close> from login to identity, in insertion order.\<close>

type_synonym userPool = "(string \<times> authorIdentity) list"

text \<open>\<open>Map.set\<close>: the value of a key that is present is replaced where it stands.\<close>

fun mapSet :: "string \<Rightarrow> authorIdentity \<Rightarrow> userPool \<Rightarrow> userPool" where
  "mapSet k v [] = [(k, v)]"
| "mapSet k v ((k', v') # m) = (if k' = k then (k, v) # m else (k', v') # mapSet k v m)"

definition isUsernameChar :: "char \<Rightarrow> bool" where
  "isUsernameChar c = (isLower c \<or> isDigit c \<or> c = CHR ''.'')"

definition isEmailChar :: "char \<Rightarrow> bool" where
  "isEmailChar c = (isLower c \<or> isDigit c)"

text \<open>\<open>createNewUser\<close> returns the login and the pool as it leaves it.\<close>

definition createNewUser :: "userPool \<Rightarrow> string option \<Rightarrow> string \<times> userPool" where
  "createNewUser pool authorString =
     (if \<not> truthy authorString \<or> trim (orEmpty authorString) = [] then (''admin'', pool)
      else
        let cleanAuthor = trim (orEmpty authorString);
            nameParts = splitWs cleanAuthor;
            firstName = (if 2 \<le> length nameParts then hd nameParts
                         else if length nameParts = 1 then hd nameParts else []);
            lastName = (if 2 \<le> length nameParts then last nameParts else []);
            username = (if lastName \<noteq> []
                        then toLowerCase firstName @ ''.'' @ toLowerCase lastName
                        else toLowerCase firstName);
            cleanUsername = filter isUsernameChar username;
            emailSuffix = (if lastName \<noteq> []
                           then toLowerCase firstName @ toLowerCase lastName
                           else toLowerCase firstName);
            email = ''ananay+'' @ filter isEmailChar emailSuffix @ ''@exunclan.com'';
            newUserId = 1000 + int (length pool) + 1;
            newUser = \<lparr> author_id = newUserId, login = cleanUsername, email = email,
                        display_name = cleanAuthor, first_name = firstName, last_name = lastName \<rparr>
        in (cleanUsername, mapSet cleanUsername newUser pool))"

text \<open>The exact matches of the first loop over the table.\<close>

definition exactMatch :: "string \<Rightarrow> authorIdentity \<Rightarrow> bool" where
  "exactMatch cleanAuthor a =
     (let displayName = toLowerCase (display_name a);
          firstName = toLowerCase (first_name a);
          lastName = toLowerCase (last_name a);
          fullName = trim (firstName @ '' '' @ lastName)
      in displayName = cleanAuthor \<or> fullName = cleanAuthor \<or>
         firstName = cleanAuthor \<or> lastName = cleanAuthor)"

text \<open>The matches by whole words of the second loop.\<close>

definition wordMatch :: "string list \<Rightarrow> authorIdentity \<Rightarrow> bool" where
  "wordMatch authorWords a =
     (let firstName = toLowerCase (first_name a);
          lastName = toLowerCase (last_name a);
          displayName = toLowerCase (display_name a)
      in (firstName \<noteq> [] \<and> lastName \<noteq> [] \<and>
          firstName \<in> set authorWords \<and> lastName \<in> set authorWords) \<or>
         (displayName \<noteq> [] \<and> displayName \<in> set authorWords))"

text \<open>
  \<open>getAuthorLogin\<close> over a table and the pool of the run: the login, and the pool as the
  call leaves it.
\<close>

definition getAuthorLogin ::
  "(string \<times> authorIdentity) list \<Rightarrow> userPool \<Rightarrow> string option \<Rightarrow> string \<times> userPool" where
  "getAuthorLogin tbl pool authorString =
     (if \<not> truthy authorString \<or> trim (orEmpty authorString) = [] then (''admin'', pool)
      else
        let cleanAuthor = trim (toLowerCase (orEmpty authorString))
        in if hasProperty tbl cleanAuthor then (cleanAuthor, pool)
           else
             (case find (\<lambda>(key, a). exactMatch cleanAuthor a) tbl of
                Some (key, a) \<Rightarrow> (key, pool)
              | None \<Rightarrow>
                  (case find (\<lambda>(key, a). wordMatch (splitWs cleanAuthor) a) tbl of
                     Some (key, a) \<Rightarrow> (key, pool)
                   | None \<Rightarrow> createNewUser pool authorString)))"

text \<open>The ids of both pools, the fixed table first.\<close>

definition allAuthorIds :: "(string \<times> authorIdentity) list \<Rightarrow> userPool \<Rightarrow> int list" where
  "allAuthorIds tbl pool = map (author_id \<circ> snd) tbl @ map (author_id \<circ> snd) pool"

text \<open>A sequence of calls of \<open>getAuthorLogin\<close> in one run.\<close>

fun resolveAll :: "(string \<times> authorIdentity) list \<Rightarrow> userPool \<Rightarrow> string option list \<Rightarrow> userPool" where
  "resolveAll tbl pool [] = pool"
| "resolveAll tbl pool (a # as) = resolveAll tbl (snd (getAuthorLogin tbl pool a)) as"

section \<open>Export Serializer\<close>

subsection \<open>Escaping\<close>

text \<open>\<open>replace\<close> of every occurrence of one character by a string.\<close>

definition replaceChar :: "char \<Rightarrow> string \<Rightarrow> string \<Rightarrow> string" where
  "replaceChar c r s = concat (map (\<lambda>x. if x = c then r else [x]) s)"

text \<open>\<open>escapeXml\<close>: five replacements in the order of the source, the ampersand first.\<close>

definition escapeXml :: "string \<Rightarrow> string" where
  "escapeXml unsafe =
     replaceChar SQ ''&#039;''
       (replaceChar DQ ''&quot;''
         (replaceChar (CHR ''>'') ''&gt;''
           (replaceChar (CHR ''<'') ''&lt;''
             (replaceChar (CHR ''&'') ''&amp;'' unsafe))))"

text \<open>
  \<open>cdata\<close>: empty content gives the empty string; otherwise the closing sequence of a
  CDATA section is escaped in the content and the content is wrapped.
\<close>

definition cdata :: "string \<Rightarrow> string" where
  "cdata content' =
     (if content' = [] then []
      else ''<![CDATA['' @ replaceAll (litMatcher '']]>'' '']]&gt;'') content' @ '']]>'')"

subsection \<open>Dates\<close>

text \<open>
  The \<open>Date\<close> object of the platform: \<open>dateParse s\<close> is the time value of \<open>new Date(s)\<close>,
  \<open>None\<close> for an invalid date; the two renderings are those of a valid date.
\<close>

record platform =
  dateParse :: "string \<Rightarrow> int option"
  toISOString :: "int \<Rightarrow> string"
  toUTCString :: "int \<Rightarrow> string"

text \<open>
  What the clock and the random source give while one post is converted: \<open>Date.now()\<close>
  and \<open>Math.floor(Math.random() * 1000)\<close> in \<open>extractPostId\<close>, and the time value of
  \<open>new Date()\<close> in \<open>formatWordPressDate\<close>.
\<close>

record readings =
  idNow :: int
  idRandom :: int
  dateNow :: int

text \<open>\<open>replace(/\.\d{3}Z$/, '+00:00')\<close>: a trailing \<open>.\<close>, three digits and \<open>Z\<close>.\<close>

definition replaceMillis :: "string \<Rightarrow> string" where
  "replaceMillis s =
     (let n = length s; t = drop (n - 5) s
      in if 5 \<le> n \<and> take 1 t = ''.'' \<and> list_all isDigit (take 3 (drop 1 t)) \<and> drop 4 t = ''Z''
         then take (n - 5) s @ ''+00:00'' else s)"

text \<open>\<open>replace(/\+00:00$/, '')\<close>\<close>

definition dropOffset :: "string \<Rightarrow> string" where
  "dropOffset s =
     (let n = length s
      in if 6 \<le> n \<and> drop (n - 6) s = ''+00:00'' then take (n - 6) s else s)"

text \<open>\<open>a || b\<close> on strings.\<close>

definition orElse :: "string \<Rightarrow> string \<Rightarrow> string" where
  "orElse a b = (if a \<noteq> [] then a else b)"

text \<open>\<open>toISOString\<close> of an invalid date raises a \<open>RangeError\<close>.\<close>

definition formatWordPressDate :: "platform \<Rightarrow> int \<Rightarrow> string option \<Rightarrow> jsError + string" where
  "formatWordPressDate h now ts =
     (if \<not> truthy ts then Inr (replaceMillis (toISOString h now))
      else
        let t = orEmpty ts;
            year = substring t 0 4;
            month = substring t 4 6;
            day = substring t 6 8;
            hour = orElse (substring t 8 10) ''12'';
            minute = orElse (substring t 10 12) ''00'';
            second = orElse (substring t 12 14) ''00''
        in case dateParse h (year @ ''-'' @ month @ ''-'' @ day @ ''T'' @ hour @ '':'' @ minute
                               @ '':'' @ second @ ''Z'') of
             None \<Rightarrow> Inl (RangeError ''Invalid time value'')
           | Some d \<Rightarrow> Inr (replaceMillis (toISOString h d)))"

subsection \<open>Slugs and post ids\<close>

definition generateSlug :: "string option \<Rightarrow> string option \<Rightarrow> string" where
  "generateSlug title' postId =
     (if truthy title' \<and> trim (orEmpty title') \<noteq> []
      then substring (slugify (orEmpty title')) 0 200
      else orElse (orEmpty postId) ''post'')"

text \<open>The value of a string of decimal digits.\<close>

definition digitValue :: "char \<Rightarrow> int" where
  "digitValue c = int (of_char c) - 48"

definition digitsValue :: "string \<Rightarrow> int" where
  "digitsValue ds = foldl (\<lambda>v c. 10 * v + digitValue c) 0 ds"

text \<open>
  \<open>parseInt(s)\<close> without a radix: leading white space and a sign are skipped, a prefix
  \<open>0x\<close> or \<open>0X\<close> selects base 16, and the longest run of digits of the base is read; no
  digit gives \<open>NaN\<close>, here \<open>None\<close>. The model keeps the exact integer, which is the
  number JavaScript returns for magnitudes below \<open>2^53\<close>.
\<close>

definition isHexDigit :: "char \<Rightarrow> bool" where
  "isHexDigit c = (isDigit c \<or> c \<in> set ''abcdefABCDEF'')"

definition hexDigitValue :: "char \<Rightarrow> int" where
  "hexDigitValue c =
     (if isDigit c then digitValue c
      else if isLower c then int (of_char c) - 87 else int (of_char c) - 55)"

definition parseInt :: "string \<Rightarrow> int option" where
  "parseInt s =
     (let s1 = dropWhile isSpace s;
          negative = (s1 \<noteq> [] \<and> hd s1 = CHR ''-'');
          s2 = (if s1 \<noteq> [] \<and> (hd s1 = CHR ''-'' \<or> hd s1 = CHR ''+'') then tl s1 else s1);
          hex = (startsWith s2 ''0x'' \<or> startsWith s2 ''0X'');
          ds = (if hex then takeWhile isHexDigit (drop 2 s2) else takeWhile isDigit s2);
          v = (if hex then foldl (\<lambda>v c. 16 * v + hexDigitValue c) 0 ds else digitsValue ds)
      in if ds = [] then None else Some (if negative then - v else v))"

text \<open>\<open>s.match(/post-(\d+)/)\<close>: the digits behind the first \<open>post-\<close> that has some.\<close>

fun matchPostNumber :: "string \<Rightarrow> string option" where
  "matchPostNumber [] = None"
| "matchPostNumber (c # cs) =
     (case lit ''post-'' (c # cs) of
        None \<Rightarrow> matchPostNumber cs
      | Some r \<Rightarrow> if takeWhile isDigit r \<noteq> [] then Some (takeWhile isDigit r)
                  else matchPostNumber cs)"

definition metaOf :: "post \<Rightarrow> metadata" where
  "metaOf p = (case metadata p of None \<Rightarrow> emptyMetadata | Some m \<Rightarrow> m)"

text \<open>
  \<open>extractPostId\<close>. \<open>timestamp.substring(-8)\<close> is the whole time stamp, since a negative
  index counts as 0.
\<close>

definition extractPostId :: "readings \<Rightarrow> post \<Rightarrow> int" where
  "extractPostId env post =
     (let i = orEmpty (id_field post);
          cl = orEmpty (classes post);
          byId = (if i \<noteq> [] \<and> list_all isDigit i then parseInt i else None);
          byIdNumber = (if i \<noteq> [] \<and> includesStr i ''post-''
                        then (case matchPostNumber i of None \<Rightarrow> None | Some ds \<Rightarrow> parseInt ds)
                        else None);
          byClass = (if cl \<noteq> [] \<and> includesStr cl ''post-''
                     then (case matchPostNumber cl of None \<Rightarrow> None | Some ds \<Rightarrow> parseInt ds)
                     else None)
      in case byId of
           Some n \<Rightarrow> n
         | None \<Rightarrow>
             (case byIdNumber of
                Some n \<Rightarrow> n
              | None \<Rightarrow>
                  (case byClass of
                     Some n \<Rightarrow> n
                   | None \<Rightarrow>
                       if truthy (metaTimestamp post)
                       then (case parseInt (orEmpty (metaTimestamp post)) of
                               None \<Rightarrow> idNow env
                             | Some n \<Rightarrow> if n = 0 then idNow env else n)
                       else idNow env + idRandom env)))"

subsection \<open>Items\<close>

text \<open>The slug of a taxonomy term.\<close>

definition termSlug :: "string \<Rightarrow> string" where
  "termSlug term = collapseRuns isSpace (CHR ''-'') (filter isSlugChar (toLowerCase term))"

definition createTaxonomyXml :: "string list option \<Rightarrow> string \<Rightarrow> string" where
  "createTaxonomyXml terms taxonomy =
     (case terms of
        None \<Rightarrow> []
      | Some ts \<Rightarrow>
          concat (map (\<lambda>term. concat
                 [[NL, TAB, TAB], ''<category domain='', [DQ], taxonomy, [DQ], '' nicename='', [DQ],
             escapeXml (termSlug term), [DQ], ''>'', cdata term, ''</category>'']) ts))"

text \<open>
  \<open>convertPostToWxr\<close> with the identity table, the pool of the run and the readings taken
  while the post is converted: the item and the pool as the call leaves it, or the
  exception of the date formatting.
\<close>

definition convertPostToWxr ::
  "platform \<Rightarrow> (string \<times> authorIdentity) list \<Rightarrow> readings \<Rightarrow> userPool \<Rightarrow> post \<Rightarrow>
   jsError + (string \<times> userPool)" where
  "convertPostToWxr h tbl env pool post =
     (let postId = extractPostId env post;
          titleText = orElse (orEmpty (title post)) ''Untitled Post'';
          slug = generateSlug (Some titleText) (uniqueId post);
          contentText = orElse (orEmpty (content post)) (orEmpty (fullHtml post));
          excerptText = orEmpty (excerpt post);
          (authorLogin, pool') = getAuthorLogin tbl pool (author post)
      in case formatWordPressDate h (dateNow env) (metaTimestamp post) of
           Inl e \<Rightarrow> Inl e
         | Inr publishDate \<Rightarrow>
             let wpDate = dropOffset publishDate;
                 wpDateGmt = dropOffset publishDate;
                 pubDate = (case dateParse h publishDate of
                              None \<Rightarrow> ''Invalid Date''
                            | Some d \<Rightarrow> toUTCString h d);
                 categoriesXml = createTaxonomyXml (categories post) ''category'';
                 tagsXml = createTaxonomyXml (tags post) ''post_tag'';
                 oldSlug = orElse (orEmpty (uniqueId post)) slug;
                 mergedCount = (case mergedFrom (metaOf post) of
                                  None \<Rightarrow> 1
                                | Some n \<Rightarrow> if n = 0 then 1 else int n)
             in Inr (concat
                       [[NL, TAB], ''<item>'', [NL, TAB, TAB], ''<title>'', titleText, ''</title>'',
                        [NL, TAB, TAB], ''<link>https://lnexun.com/'', slug, ''/</link>'',
                        [NL, TAB, TAB], ''<pubDate>'', pubDate, ''</pubDate>'', [NL, TAB, TAB],
                        ''<dc:creator>'', cdata authorLogin, ''</dc:creator>'', [NL, TAB, TAB],
                        ''<guid isPermaLink='', [DQ], ''false'', [DQ], ''>https://lnexun.com/?p='',
                        showInt postId, ''</guid>'', [NL, TAB, TAB], ''<description></description>'',
                        [NL, TAB, TAB], ''<content:encoded>'', cdata contentText, ''</content:encoded>'',
                        [NL, TAB, TAB], ''<excerpt:encoded>'', cdata excerptText, ''</excerpt:encoded>'',
                        [NL, TAB, TAB], ''<wp:post_id>'', showInt postId, ''</wp:post_id>'',
                        [NL, TAB, TAB], ''<wp:post_date>'', cdata wpDate, ''</wp:post_date>'',
                        [NL, TAB, TAB], ''<wp:post_date_gmt>'', cdata wpDateGmt,
                        ''</wp:post_date_gmt>'', [NL, TAB, TAB], ''<wp:comment_status>'',
                        cdata ''open'', ''</wp:comment_status>'', [NL, TAB, TAB],
                        ''<wp:ping_status>'', cdata ''open'', ''</wp:ping_status>'', [NL, TAB, TAB],
                        ''<wp:post_name>'', cdata slug, ''</wp:post_name>'', [NL, TAB, TAB],
                        ''<wp:status>'', cdata ''publish'', ''</wp:status>'', [NL, TAB, TAB],
                        ''<wp:post_parent>0</wp:post_parent>'', [NL, TAB, TAB],
                        ''<wp:menu_order>0</wp:menu_order>'', [NL, TAB, TAB], ''<wp:post_type>'',
                        cdata ''post'', ''</wp:post_type>'', [NL, TAB, TAB], ''<wp:post_password>'',
                        cdata [], ''</wp:post_password>'', [NL, TAB, TAB],
                        ''<wp:is_sticky>0</wp:is_sticky>'', categoriesXml, tagsXml, [NL, TAB, TAB],
                        ''<wp:postmeta>'', [NL, TAB, TAB, TAB], ''<wp:meta_key>'',
                        cdata ''_edit_last'', ''</wp:meta_key>'', [NL, TAB, TAB, TAB],
                        ''<wp:meta_value>'', cdata ''1'', ''</wp:meta_value>'', [NL, TAB, TAB],
                        ''</wp:postmeta>'', [NL, TAB, TAB], ''<wp:postmeta>'', [NL, TAB, TAB, TAB],
                        ''<wp:meta_key>'', cdata ''_wp_old_slug'', ''</wp:meta_key>'',
                        [NL, TAB, TAB, TAB], ''<wp:meta_value>'', cdata oldSlug, ''</wp:meta_value>'',
                        [NL, TAB, TAB], ''</wp:postmeta>'', [NL, TAB, TAB], ''<wp:postmeta>'',
                        [NL, TAB, TAB, TAB], ''<wp:meta_key>'', cdata ''_lnexun_import_source'',
                        ''</wp:meta_key>'', [NL, TAB, TAB, TAB], ''<wp:meta_value>'',
                        cdata ''wayback_machine'', ''</wp:meta_value>'', [NL, TAB, TAB],
                        ''</wp:postmeta>'', [NL, TAB, TAB], ''<wp:postmeta>'', [NL, TAB, TAB, TAB],
                        ''<wp:meta_key>'', cdata ''_lnexun_original_timestamp'', ''</wp:meta_key>'',
                        [NL, TAB, TAB, TAB], ''<wp:meta_value>'',
                        cdata (orEmpty (metaTimestamp post)), ''</wp:meta_value>'', [NL, TAB, TAB],
                        ''</wp:postmeta>'', [NL, TAB, TAB], ''<wp:postmeta>'', [NL, TAB, TAB, TAB],
                        ''<wp:meta_key>'', cdata ''_lnexun_merged_from'', ''</wp:meta_key>'',
                        [NL, TAB, TAB, TAB], ''<wp:meta_value>'', cdata (showInt mergedCount),
                        ''</wp:meta_value>'', [NL, TAB, TAB], ''</wp:postmeta>'', [NL, TAB],
                        ''</item>''],
                     pool'))"

subsection \<open>The document\<close>

definition siteUrl :: string where
  "siteUrl = ''https://lnexun.com''"

definition siteName :: string where
  "siteName = ''Natural Log of Exun''"

definition categoryDef :: "nat \<times> string \<Rightarrow> string" where
  "categoryDef = (\<lambda>(index, cat).
     concat
       [[NL, TAB], ''<wp:category>'', [NL, TAB, TAB], ''<wp:term_id>'',
        showInt (int index + 1), ''</wp:term_id>'', [NL, TAB, TAB],
        ''<wp:category_nicename>'', escapeXml (termSlug cat), ''</wp:category_nicename>'',
        [NL, TAB, TAB], ''<wp:category_parent></wp:category_parent>'', [NL, TAB, TAB],
        ''<wp:cat_name>'', cdata cat, ''</wp:cat_name>'', [NL, TAB], ''</wp:category>''])"

definition tagDef :: "nat \<Rightarrow> nat \<times> string \<Rightarrow> string" where
  "tagDef categoryCount = (\<lambda>(index, tag).
     concat
       [[NL, TAB], ''<wp:tag>'', [NL, TAB, TAB], ''<wp:term_id>'',
        showInt (int categoryCount + int index + 1), ''</wp:term_id>'', [NL, TAB, TAB],
        ''<wp:tag_slug>'', escapeXml (termSlug tag), ''</wp:tag_slug>'', [NL, TAB, TAB],
        ''<wp:tag_name>'', cdata tag, ''</wp:tag_name>'', [NL, TAB], ''</wp:tag>''])"

definition authorDef :: "authorIdentity \<Rightarrow> string" where
  "authorDef a =
     concat
       [[NL, TAB], ''<wp:author><wp:author_id>'', showInt (author_id a),
        ''</wp:author_id><wp:author_login>'', cdata (login a),
        ''</wp:author_login><wp:author_email>'', cdata (email a),
        ''</wp:author_email><wp:author_display_name>'', cdata (display_name a),
        ''</wp:author_display_name><wp:author_first_name>'', cdata (first_name a),
        ''</wp:author_first_name><wp:author_last_name>'', cdata (last_name a),
        ''</wp:author_last_name></wp:author>'']"

text \<open>
  \<open>posts.map(convertPostToWxr).join('')\<close> with the pool threaded through the calls;
  \<open>envs i\<close> holds the readings taken while post number \<open>i\<close> is converted.
\<close>

fun convertPosts ::
  "platform \<Rightarrow> (string \<times> authorIdentity) list \<Rightarrow> (nat \<Rightarrow> readings) \<Rightarrow> nat \<Rightarrow> userPool \<Rightarrow>
   post list \<Rightarrow> jsError + (string \<times> userPool)" where
  "convertPosts h tbl envs i pool [] = Inr ([], pool)"
| "convertPosts h tbl envs i pool (p # ps) =
     (case convertPostToWxr h tbl (envs i) pool p of
        Inl e \<Rightarrow> Inl e
      | Inr (item, pool') \<Rightarrow>
          (case convertPosts h tbl envs (Suc i) pool' ps of
             Inl e \<Rightarrow> Inl e
           | Inr (items, pool'') \<Rightarrow> Inr (item @ items, pool'')))"

text \<open>
  \<open>createWxrFile\<close>. \<open>currentDate\<close> is the generation time stamp of the document,
  \<open>new Date().toUTCString()\<close>. The author declarations are made from the pool as it is
  when the function is entered, before the posts are converted.
\<close>

definition createWxrFile ::
  "platform \<Rightarrow> (string \<times> authorIdentity) list \<Rightarrow> string \<Rightarrow> (nat \<Rightarrow> readings) \<Rightarrow> userPool \<Rightarrow>
   post list \<Rightarrow> jsError + (string \<times> userPool)" where
  "createWxrFile h tbl currentDate envs pool ps =
     (let allCategories = foldl (\<lambda>s p. addAll s (categories p)) [] ps;
          allTags = foldl (\<lambda>s p. addAll s (tags p)) [] ps;
          categoryDefs = concat (map categoryDef (enumerate 0 allCategories));
          tagDefs = concat (map (tagDef (length allCategories)) (enumerate 0 allTags));
          allAuthors = map snd tbl @ map snd pool;
          authorDefs = concat (map authorDef allAuthors)
      in case convertPosts h tbl envs 0 pool ps of
           Inl e \<Rightarrow> Inl e
         | Inr (postsXml, pool') \<Rightarrow>
             Inr (concat
                    [''<?xml version='', [DQ], ''1.0'', [DQ], '' encoding='', [DQ], ''UTF-8'', [DQ],
                     '' ?>'', [NL],
                     ''<!-- This is a WordPress eXtended RSS file generated by lnexun wayback scraper as seen on lnexun.com -->'',
                     [NL], ''<!-- generator='', [DQ], ''WordPress/6.6.2'', [DQ], '' created='', [DQ],
                     currentDate, [DQ], '' -->'', [NL], ''<rss version='', [DQ], ''2.0'',
                     [DQ, NL, TAB], ''xmlns:excerpt='', [DQ],
                     ''http://wordpress.org/export/1.2/excerpt/'', [DQ, NL, TAB], ''xmlns:content='',
                     [DQ], ''http://purl.org/rss/1.0/modules/content/'', [DQ, NL, TAB],
                     ''xmlns:wfw='', [DQ], ''http://wellformedweb.org/CommentAPI/'', [DQ, NL, TAB],
                     ''xmlns:dc='', [DQ], ''http://purl.org/dc/elements/1.1/'', [DQ, NL, TAB],
                     ''xmlns:wp='', [DQ], ''http://wordpress.org/export/1.2/'', [DQ], ''>'',
                     [NL, NL], ''<channel>'', [NL, TAB], ''<title>'', siteName, ''</title>'',
                     [NL, TAB], ''<link>'', siteUrl, ''</link>'', [NL, TAB],
                     ''<description>The Natural Log of Exun - Computer Club of DPS RKP</description>'',
                     [NL, TAB], ''<pubDate>'', currentDate, ''</pubDate>'', [NL, TAB],
                     ''<language>en-US</language>'', [NL, TAB],
                     ''<wp:wxr_version>1.2</wp:wxr_version>'', [NL, TAB], ''<wp:base_site_url>'',
                     siteUrl, ''</wp:base_site_url>'', [NL, TAB], ''<wp:base_blog_url>'', siteUrl,
                     ''</wp:base_blog_url>'', [NL, NL, TAB], authorDefs, [NL, NL, TAB], categoryDefs,
                     [NL, TAB], tagDefs, [NL, NL, TAB], ''<generator>WordPress/6.6.2</generator>'',
                     [NL, NL, TAB], postsXml, [NL], ''</channel>'', [NL], ''</rss>''],
                  pool'))"

text \<open>
  The filter of \<open>convertToWxr\<close>: error posts and posts with neither a title nor more than
  50 characters of content are left out.
\<close>

definition validPost :: "post \<Rightarrow> bool" where
  "validPost p =
     (id_field p \<noteq> Some ''error-post'' \<and>
      ((truthy (title p) \<and> trim (orEmpty (title p)) \<noteq> []) \<or>
       (truthy (content p) \<and> 50 < length (orEmpty (content p)))))"

text \<open>
  One serialization run on a filtered list: the pool is cleared, a first pass resolves
  the author of every post, then the document is made.
\<close>

definition serializeRun ::
  "platform \<Rightarrow> (string \<times> authorIdentity) list \<Rightarrow> string \<Rightarrow> (nat \<Rightarrow> readings) \<Rightarrow>
   post list \<Rightarrow> jsError + (string \<times> userPool)" where
  "serializeRun h tbl currentDate envs validPosts =
     createWxrFile h tbl currentDate envs (resolveAll tbl [] (map author validPosts)) validPosts"

text \<open>\<open>convertToWxr\<close> on the posts of the consolidated document, without the file access.\<close>

definition convertToWxr ::
  "platform \<Rightarrow> (string \<times> authorIdentity) list \<Rightarrow> string \<Rightarrow> (nat \<Rightarrow> readings) \<Rightarrow>
   post list \<Rightarrow> jsError + (string \<times> userPool)" where
  "convertToWxr h tbl currentDate envs ps = serializeRun h tbl currentDate envs (filter validPost ps)"

section \<open>Post Extractor\<close>

text \<open>
  The parsed document is the \<open>$\<close> of cheerio. The model knows it as a value that is not
  a function, or as a query from a selector to the matched elements that may raise. What
  is read from one matched element (the object literal of the source with its
  sub-extractors, all of them calls into cheerio) is a parameter that may raise as well, and
  so is the page-content fallback.
\<close>

datatype 'e cheerio = NotAFunction | Cheerio "string \<Rightarrow> jsError + 'e list"

definition message :: "jsError \<Rightarrow> string" where
  "message e = (case e of TypeError m \<Rightarrow> m | RangeError m \<Rightarrow> m | Error m \<Rightarrow> m)"

definition postSelectors :: "string list" where
  "postSelectors =
     [''article'', ''.post'', ''.hentry'', ''.entry'', ''[class*='' @ [DQ] @ ''post'' @ [DQ] @ '']'',
      ''#content .post'', ''.content .post'', ''.main .post'']"

text \<open>The sentinel of the outer handler; \<open>extractedAt\<close> is the time of the call.\<close>

definition errorPost :: "string \<Rightarrow> string \<Rightarrow> string \<Rightarrow> string \<Rightarrow> post" where
  "errorPost url ts now msg =
     \<lparr> id_field = Some ''error-post'',
       classes = Some ''error'',
       title = Some ''Extraction Error'',
       content = Some (''Failed to extract content: '' @ msg),
       excerpt = Some [],
       date = None,
       author = Some [],
       categories = Some [],
       tags = Some [],
       permalink = Some url,
       fullHtml = Some [],
       metadata = Some \<lparr> sourceUrl = Some url, timestamp = Some ts, selector = Some ''error'',
                          extractedAt = Some now, mergedFrom = None, sourceTimestamps = None,
                          error = Some msg, type_field = None \<rparr>,
       uniqueId = None \<rparr>"

text \<open>\<open>elements.each\<close>: an element whose extraction raises is logged and left out.\<close>

fun extractEach :: "('e \<Rightarrow> nat \<Rightarrow> jsError + post) \<Rightarrow> nat \<Rightarrow> 'e list \<Rightarrow> post list" where
  "extractEach f index [] = []"
| "extractEach f index (element # elements) =
     (case f element index of
        Inl postError \<Rightarrow> extractEach f (Suc index) elements
      | Inr p \<Rightarrow> p # extractEach f (Suc index) elements)"

text \<open>
  The loop over the selectors: a selector whose query raises is skipped, the first one
  that matches an element is used, and \<open>None\<close> says that no selector matched.
\<close>

fun trySelectors ::
  "(string \<Rightarrow> jsError + 'e list) \<Rightarrow> (string \<Rightarrow> 'e \<Rightarrow> nat \<Rightarrow> jsError + post) \<Rightarrow> string list \<Rightarrow>
   post list option" where
  "trySelectors query extractPost [] = None"
| "trySelectors query extractPost (sel # selectors) =
     (case query sel of
        Inl selectorError \<Rightarrow> trySelectors query extractPost selectors
      | Inr elements \<Rightarrow>
          if 0 < length elements then Some (extractEach (extractPost sel) 0 elements)
          else trySelectors query extractPost selectors)"

definition extractWordPressPosts ::
  "'e cheerio \<Rightarrow> (string \<Rightarrow> 'e \<Rightarrow> nat \<Rightarrow> jsError + post) \<Rightarrow> (jsError + post option) \<Rightarrow>
   string \<Rightarrow> string \<Rightarrow> string \<Rightarrow> post list" where
  "extractWordPressPosts dollar extractPost extractPageContent url ts now =
     (case dollar of
        NotAFunction \<Rightarrow> [errorPost url ts now ''Cheerio $ function is not available'']
      | Cheerio query \<Rightarrow>
          (case query ''html'' of
             Inl testError \<Rightarrow>
               [errorPost url ts now (''Cheerio test failed: '' @ message testError)]
           | Inr testElement \<Rightarrow>
               (case trySelectors query extractPost postSelectors of
                  Some found \<Rightarrow> found
                | None \<Rightarrow>
                    (case extractPageContent of
                       Inl pageError \<Rightarrow> []
                     | Inr None \<Rightarrow> []
                     | Inr (Some pageContent) \<Rightarrow> [pageContent]))))"

section \<open>Example inputs\<close>

definition emptyPost :: post where
  "emptyPost =
     \<lparr> id_field = None, classes = None, title = None, content = None, excerpt = None,
       date = None, author = None, categories = None, tags = None, permalink = None,
       fullHtml = None, metadata = None, uniqueId = None \<rparr>"

text \<open>A record with a placeholder id and neither title, content nor time stamp.\<close>

definition placeholderPost :: post where
  "placeholderPost = emptyPost\<lparr> id_field := Some ''post-0'' \<rparr>"

definition titledPost :: post where
  "titledPost = emptyPost\<lparr> id_field := Some ''post-0'', title := Some ''Hello World'' \<rparr>"

text \<open>A snapshot whose fetch failed, and a file that could not be parsed.\<close>

definition failedSnapshot :: snapshotResult where
  "failedSnapshot =
     \<lparr> snap_timestamp = Some ''20200101000000'', originalUrl = Some ''http://www.lnexun.com/'',
       waybackUrl = Some ''https://web.archive.org/web/20200101000000/http://www.lnexun.com/'',
       posts = Some [], success = False, snap_error = Some ''timeout'', responseSize = 0,
       contentType = Some ''unknown'' \<rparr>"

definition unreadableFile :: "jsError + snapshotResult" where
  "unreadableFile = Inl (Error ''Unexpected end of JSON input'')"

text \<open>
  A document whose probe query answers and whose selector queries all raise, with no
  main container for the page-content fallback.
\<close>

definition brokenQuery :: "string \<Rightarrow> jsError + unit list" where
  "brokenQuery sel = (if sel = ''html'' then Inr [()] else Inl (Error ''selector failed''))"

definition noPost :: "string \<Rightarrow> unit \<Rightarrow> nat \<Rightarrow> jsError + post" where
  "noPost sel element index = Inl (Error ''not reached'')"

definition failingProbe :: "string \<Rightarrow> jsError + unit list" where
  "failingProbe sel = Inl (TypeError ''load failed'')"

text \<open>Two captures of one post: the first is the shorter one.\<close>

definition shortPost :: post where
  "shortPost =
     emptyPost\<lparr> id_field := Some ''post-12'', title := Some ''Hello World'',
                content := Some ''short'', categories := Some [''news''],
                tags := Some [''a'', ''b''],
                metadata := Some (emptyMetadata\<lparr> timestamp := Some ''20200101000000'' \<rparr>) \<rparr>"

definition longPost :: post where
  "longPost =
     emptyPost\<lparr> id_field := Some ''post-12'', title := Some ''Hello World'',
                content := Some ''a longer content'', categories := Some [''update'', ''news''],
                tags := Some [''b''],
                metadata := Some (emptyMetadata\<lparr> timestamp := Some ''20200601000000'' \<rparr>) \<rparr>"

text \<open>A group of one, with a category listed twice.\<close>

definition lonePost :: post where
  "lonePost =
     emptyPost\<lparr> id_field := Some ''post-7'', content := Some ''text'',
                categories := Some [''news'', ''news''], tags := Some [],
                metadata := Some (emptyMetadata\<lparr> timestamp := Some ''20200101000000'' \<rparr>) \<rparr>"

section \<open>The union of the specification\<close>

text \<open>
  The union of lists in first-seen order, duplicates removed by equality, as the
  specification words it: every value is kept where it occurs first.
\<close>

fun firstSeen :: "'a list \<Rightarrow> 'a list" where
  "firstSeen [] = []"
| "firstSeen (x # xs) = x # filter (\<lambda>y. y \<noteq> x) (firstSeen xs)"

definition listOf :: "'a list option \<Rightarrow> 'a list" where
  "listOf v = (case v of None \<Rightarrow> [] | Some xs \<Rightarrow> xs)"

definition firstSeenUnion :: "(post \<Rightarrow> string list option) \<Rightarrow> post list \<Rightarrow> string list" where
  "firstSeenUnion field ps = firstSeen (concat (map (\<lambda>p. listOf (field p)) ps))"

text \<open>The post that \<open>mergePosts\<close> returns, \<open>None\<close> when it raises.\<close>

definition mergedOf :: "post list \<Rightarrow> post option" where
  "mergedOf ps = (case mergePosts ps of Inl e \<Rightarrow> None | Inr (m, arr) \<Rightarrow> Some m)"

text \<open>An archive URL wrapped four times.\<close>

definition nestedArchiveUrl :: string where
  "nestedArchiveUrl =
     ''https://web.archive.org/web/20230322120550if_/'' @
     ''https://web.archive.org/web/20220101000000/'' @
     ''https://web.archive.org/web/20210101000000/'' @
     ''https://web.archive.org/web/20200101000000/'' @
     ''https://example.com/x''"

text \<open>
  An image whose source the archive has rewritten to a protocol-relative reference to
  itself, as it stands in a captured page.
\<close>

definition protocolRelativeSrc :: string where
  "protocolRelativeSrc =
     ''<img src='' @ [DQ] @
     ''//web.archive.org/web/20230322120550im_/'' @
     ''http://www.lnexun.com:80/wp-content/uploads/a.png'' @ [DQ] @ ''>''"

text \<open>The same image with a doubled protocol, and with a single one.\<close>

definition doubledProtocolSrc :: string where
  "doubledProtocolSrc =
     ''<img src='' @ [DQ] @ ''https://https://lnexun.com/wp-content/uploads/a.png'' @ [DQ] @ ''>''"

definition singleProtocolSrc :: string where
  "singleProtocolSrc =
     ''<img src='' @ [DQ] @ ''https://lnexun.com/wp-content/uploads/a.png'' @ [DQ] @ ''>''"

text \<open>
  A platform whose dates are all the epoch, two readings of the clock and the random
  source, and two posts for the serializer: one whose title holds markup characters, and
  one page without an id of its own and without a capture time stamp.
\<close>

definition epochPlatform :: platform where
  "epochPlatform =
     \<lparr> dateParse = (\<lambda>s. Some 0),
       toISOString = (\<lambda>t. ''1970-01-01T00:00:00.000Z''),
       toUTCString = (\<lambda>t. ''Thu, 01 Jan 1970 00:00:00 GMT'') \<rparr>"

definition firstRun :: readings where
  "firstRun = \<lparr> idNow = 1700000000000, idRandom = 17, dateNow = 1700000000000 \<rparr>"

definition secondRun :: readings where
  "secondRun = \<lparr> idNow = 1700000060000, idRandom = 17, dateNow = 1700000060000 \<rparr>"

definition markupTitlePost :: post where
  "markupTitlePost =
     emptyPost\<lparr> id_field := Some ''post-12'', title := Some ''Q&A <live>'',
                content := Some ''text'',
                metadata := Some (emptyMetadata\<lparr> timestamp := Some ''20230330175424'' \<rparr>) \<rparr>"

definition undatedPage :: post where
  "undatedPage =
     emptyPost\<lparr> id_field := Some ''page-content'', classes := Some ''page-content'',
                title := Some ''About'', content := Some ''text'' \<rparr>"

section \<open>Posts whose id does not depend on the clock\<close>

text \<open>
  The post carries a number of its own: its id is a string of digits, or its id or its
  classes contain \<open>post-\<close> followed by digits, or its capture time stamp is read by
  \<open>parseInt\<close> as a number other than 0.
\<close>

definition postIdKnown :: "post \<Rightarrow> bool" where
  "postIdKnown p =
     (let i = orEmpty (id_field p); cl = orEmpty (classes p); ts = orEmpty (metaTimestamp p)
      in (i \<noteq> [] \<and> list_all isDigit i) \<or>
         matchPostNumber i \<noteq> None \<or>
         matchPostNumber cl \<noteq> None \<or>
         (ts \<noteq> [] \<and> parseInt ts \<noteq> None \<and> parseInt ts \<noteq> Some 0))"

definition firstReadings :: "nat \<Rightarrow> readings" where
  "firstReadings i = firstRun"

definition secondReadings :: "nat \<Rightarrow> readings" where
  "secondReadings i = secondRun"

section \<open>Evaluating the character classes\<close>

lemma isDigit_Char: "isDigit (Char b0 b1 b2 b3 b4 b5 b6 b7) \<longleftrightarrow>
   (\<not> b7 \<and> \<not> b6 \<and> b5 \<and> b4 \<and> (\<not> b3 \<or> (\<not> b2 \<and> \<not> b1)))"
  by (cases b0; cases b1; cases b2; cases b3; cases b4; cases b5; cases b6; cases b7;
      simp add: isDigit_def)

lemma isUpper_Char: "isUpper (Char b0 b1 b2 b3 b4 b5 b6 b7) \<longleftrightarrow>
   (\<not> b7 \<and> b6 \<and> \<not> b5 \<and> (b0 \<or> b1 \<or> b2 \<or> b3 \<or> b4) \<and> \<not> (b4 \<and> b3 \<and> (b2 \<or> (b1 \<and> b0))))"
  by (cases b0; cases b1; cases b2; cases b3; cases b4; cases b5; cases b6; cases b7;
      simp add: isUpper_def)

lemma isLower_Char: "isLower (Char b0 b1 b2 b3 b4 b5 b6 b7) \<longleftrightarrow>
   (\<not> b7 \<and> b6 \<and> b5 \<and> (b0 \<or> b1 \<or> b2 \<or> b3 \<or> b4) \<and> \<not> (b4 \<and> b3 \<and> (b2 \<or> (b1 \<and> b0))))"
  by (cases b0; cases b1; cases b2; cases b3; cases b4; cases b5; cases b6; cases b7;
      simp add: isLower_def)

lemma isSpace_Char: "isSpace (Char b0 b1 b2 b3 b4 b5 b6 b7) \<longleftrightarrow>
   (\<not> b6 \<and> \<not> b4 \<and>
    ((\<not> b7 \<and> \<not> b5 \<and> b3 \<and> ((\<not> b2 \<and> (b1 \<or> b0)) \<or> (b2 \<and> \<not> b1))) \<or>
     (b5 \<and> \<not> b3 \<and> \<not> b2 \<and> \<not> b1 \<and> \<not> b0)))"
  by (cases b0; cases b1; cases b2; cases b3; cases b4; cases b5; cases b6; cases b7;
      simp add: isSpace_def)

lemma toLowerChar_Char: "toLowerChar (Char b0 b1 b2 b3 b4 b5 b6 b7) =
   (if \<not> b5 \<and> b6 \<and>
       ((\<not> b7 \<and> (b0 \<or> b1 \<or> b2 \<or> b3 \<or> b4) \<and> \<not> (b4 \<and> b3 \<and> (b2 \<or> (b1 \<and> b0)))) \<or>
        (b7 \<and> \<not> (b4 \<and> b2 \<and> b1 \<and> b0)))
    then Char b0 b1 b2 b3 b4 True b6 b7 else Char b0 b1 b2 b3 b4 b5 b6 b7)"
  by (cases b0; cases b1; cases b2; cases b3; cases b4; cases b5; cases b6; cases b7;
      simp add: toLowerChar_def)

lemmas char_eval =
  isDigit_Char isUpper_Char isLower_Char isSpace_Char toLowerChar_Char
  isWordChar_def isSlugChar_def isFlagChar_def isUrlChar_def DQ_def SQ_def TAB_def NL_def

lemmas string_eval =
  toLowerCase_def trim_def startsWith_def substring_def splitWs_def lit_def litMatcher_def
  httpScheme_def truthy_def orEmpty_def orElse_def

section \<open>The grouping key\<close>

lemma slug_eval: "slugify ''Hello World'' = ''hello-world''"
  by (simp add: slugify_def stripEdgeHyphens_def char_eval string_eval)

text \<open>
  Claim C8, as stated, fails: for a record with a placeholder id and neither title, content
  nor time stamp the key is \<open>post-\<close> followed by the reading of the clock, and two calls
  at different times return different keys.
\<close>

theorem generatePostId_placeholder_differs:
  "generatePostId id 1 placeholderPost \<noteq> generatePostId id 2 placeholderPost"
  by (simp add: generatePostId_def placeholderPost_def emptyPost_def metaTimestamp_def
      showInt_def digitChar_def string_eval)

text \<open>
  Claim C8, amended: two calls of \<open>generatePostId\<close> on the same record return the same
  key, whatever the clock reads, when the record has an id that is not a placeholder, or a
  title whose slug is longer than three characters, or a non-empty content, or a non-empty
  \<open>metadata.timestamp\<close>.
\<close>

theorem generatePostId_stable:
  assumes "(\<exists>i. id_field p = Some i \<and> i \<noteq> [] \<and> i \<noteq> ''page-content'' \<and> i \<noteq> ''error-post''
              \<and> \<not> startsWith i ''post-'')
           \<or> (\<exists>t. title p = Some t \<and> t \<noteq> [] \<and> trim t \<noteq> [] \<and> 3 < length (slugify t))
           \<or> truthy (content p)
           \<or> truthy (metaTimestamp p)"
  shows "generatePostId md5hex now1 p = generatePostId md5hex now2 p"
  using assms
  by (auto simp: generatePostId_def Let_def truthy_def split: option.splits)

theorem generatePostId_stable_witness:
  "generatePostId id 1 titledPost = generatePostId id 2 titledPost"
proof -
  have "\<exists>t. title titledPost = Some t \<and> t \<noteq> [] \<and> trim t \<noteq> [] \<and> 3 < length (slugify t)"
    by (simp add: titledPost_def emptyPost_def slug_eval) (simp add: char_eval string_eval)
  then show ?thesis
    using generatePostId_stable [of titledPost id 1 2] by blast
qed

section \<open>Consolidation without posts\<close>

lemma readSnapshots_none:
  "\<forall>f\<in>set files. (case f of Inl e \<Rightarrow> True | Inr s \<Rightarrow> \<not> contributes s) \<Longrightarrow>
   fst (readSnapshots files) = []"
  by (induction files) (auto split: sum.splits prod.splits)

lemma computeStatistics_empty:
  "averageContentLength (computeStatistics a b c d []) = NaN \<and>
   earliest (dateRange (computeStatistics a b c d [])) = None \<and>
   latest (dateRange (computeStatistics a b c d [])) = None"
  by (simp add: computeStatistics_def roundedQuotient_def)

lemma consolidate_result:
  "consolidateAllPosts md5hex localeCompare clock files = Inr r \<Longrightarrow>
   \<exists>a b c d. statistics r = computeStatistics a b c d (result_posts r)"
  by (auto simp: consolidateAllPosts_def Let_def split: prod.splits sum.splits) blast

text \<open>
  Claim C10: when consolidation yields no unique post, \<open>averageContentLength\<close> is \<open>NaN\<close>
  (the quotient of zero by zero) and both ends of the date range are \<open>null\<close>; and when no
  snapshot contributes a post, consolidation completes, with no post.
\<close>

theorem consolidate_zero_posts:
  "(\<forall>r. consolidateAllPosts md5hex localeCompare clock files = Inr r \<and> result_posts r = [] \<longrightarrow>
        averageContentLength (statistics r) = NaN \<and>
        earliest (dateRange (statistics r)) = None \<and>
        latest (dateRange (statistics r)) = None) \<and>
   ((\<forall>f\<in>set files. (case f of Inl e \<Rightarrow> True | Inr s \<Rightarrow> \<not> contributes s)) \<longrightarrow>
      (\<exists>r. consolidateAllPosts md5hex localeCompare clock files = Inr r \<and> result_posts r = []))"
proof (intro conjI allI impI)
  fix r
  assume a: "consolidateAllPosts md5hex localeCompare clock files = Inr r \<and> result_posts r = []"
  then obtain a b c d where "statistics r = computeStatistics a b c d []"
    using consolidate_result by metis
  then show "averageContentLength (statistics r) = NaN"
    and "earliest (dateRange (statistics r)) = None"
    and "latest (dateRange (statistics r)) = None"
    using computeStatistics_empty by simp_all
next
  assume "\<forall>f\<in>set files. (case f of Inl e \<Rightarrow> True | Inr s \<Rightarrow> \<not> contributes s)"
  then have "fst (readSnapshots files) = []"
    by (rule readSnapshots_none)
  then show "\<exists>r. consolidateAllPosts md5hex localeCompare clock files = Inr r \<and> result_posts r = []"
    by (auto simp: consolidateAllPosts_def groupPosts_def sortByTimestamp_def Let_def
        split: prod.splits)
qed

theorem consolidate_zero_posts_witness:
  "\<exists>r. consolidateAllPosts id (\<lambda>a b. 0) (\<lambda>i. 0) [unreadableFile, Inr failedSnapshot] = Inr r \<and>
       result_posts r = [] \<and>
       averageContentLength (statistics r) = NaN \<and>
       earliest (dateRange (statistics r)) = None \<and>
       latest (dateRange (statistics r)) = None"
proof -
  have h: "\<forall>f\<in>set [unreadableFile, Inr failedSnapshot].
             (case f of Inl e \<Rightarrow> True | Inr s \<Rightarrow> \<not> contributes s)"
    by (simp add: unreadableFile_def failedSnapshot_def contributes_def)
  show ?thesis
    using consolidate_zero_posts
      [of id "\<lambda>a b. 0" "\<lambda>i. 0" "[unreadableFile, Inr failedSnapshot]"] h
    by blast
qed

section \<open>The sentinel of the extractor\<close>

text \<open>
  Claim C7, as stated, fails: when the queries for the selectors raise (a failure before
  any element is processed) the exceptions are caught one by one, and with no main
  container on the page the result is the empty list, not the sentinel.
\<close>

theorem extract_selector_failure_no_sentinel:
  "extractWordPressPosts (Cheerio brokenQuery) noPost (Inr None)
     ''https://web.archive.org/web/20200101000000/http://www.lnexun.com/'' ''20200101000000''
     ''2024-01-01T00:00:00.000Z'' = []"
  by (simp add: extractWordPressPosts_def postSelectors_def brokenQuery_def DQ_def)

text \<open>
  Claim C7, amended: \<open>extractWordPressPosts\<close> always returns a list; when \<open>$\<close> is not a
  function, or the probe query \<open>$('html')\<close> raises, the list has one element, the sentinel
  with id \<open>error-post\<close>, whose \<open>content\<close> is \<open>Failed to extract content: \<close> followed by the
  failure message and whose \<open>metadata.error\<close> is the failure message.
\<close>

theorem extract_sentinel:
  "(dollar = NotAFunction \<longrightarrow>
      extractWordPressPosts dollar extractPost extractPageContent url ts now =
        [errorPost url ts now ''Cheerio $ function is not available'']) \<and>
   (\<forall>query e. dollar = Cheerio query \<and> query ''html'' = Inl e \<longrightarrow>
      extractWordPressPosts dollar extractPost extractPageContent url ts now =
        [errorPost url ts now (''Cheerio test failed: '' @ message e)]) \<and>
   (\<forall>msg. id_field (errorPost url ts now msg) = Some ''error-post'' \<and>
      content (errorPost url ts now msg) = Some (''Failed to extract content: '' @ msg) \<and>
      error (metaOf (errorPost url ts now msg)) = Some msg)"
  by (simp add: extractWordPressPosts_def errorPost_def metaOf_def)

theorem extract_sentinel_witness:
  "extractWordPressPosts (Cheerio failingProbe) noPost (Inr None) ''u'' ''20200101000000'' ''n'' =
     [errorPost ''u'' ''20200101000000'' ''n'' ''Cheerio test failed: load failed''] \<and>
   extractWordPressPosts (NotAFunction :: unit cheerio) noPost (Inr None) ''u'' ''20200101000000'' ''n'' =
     [errorPost ''u'' ''20200101000000'' ''n'' ''Cheerio $ function is not available''] \<and>
   content (errorPost ''u'' ''20200101000000'' ''n'' ''Cheerio test failed: load failed'') =
     Some ''Failed to extract content: Cheerio test failed: load failed''"
proof -
  have p: "failingProbe ''html'' = Inl (TypeError ''load failed'')"
    by (simp add: failingProbe_def)
  have m: "message (TypeError ''load failed'') = ''load failed''"
    by (simp add: message_def)
  note t1 = extract_sentinel [of "Cheerio failingProbe" noPost "Inr None" "''u''"
      "''20200101000000''" "''n''"]
  note t2 = extract_sentinel [of "NotAFunction :: unit cheerio" noPost "Inr None" "''u''"
      "''20200101000000''" "''n''"]
  have c: "content (errorPost ''u'' ''20200101000000'' ''n'' ''Cheerio test failed: load failed'') =
     Some ''Failed to extract content: Cheerio test failed: load failed''"
    using t1 by simp
  from t1 p m t2 c show ?thesis
    by simp
qed

text \<open>
  Past the initial checks no sentinel is made: a selector whose query raises, or matches
  nothing, is skipped; the result is what the first matching selector yields, or the page
  content when there is one, or the empty list.
\<close>

lemma trySelectors_skip_raise:
  "query sel = Inl e \<Longrightarrow>
   trySelectors query extractPost (sel # selectors) = trySelectors query extractPost selectors"
  by simp

lemma trySelectors_skip_empty:
  "query sel = Inr [] \<Longrightarrow>
   trySelectors query extractPost (sel # selectors) = trySelectors query extractPost selectors"
  by simp

lemma trySelectors_first_match:
  "query sel = Inr (element # elements) \<Longrightarrow>
   trySelectors query extractPost (sel # selectors) =
     Some (extractEach (extractPost sel) 0 (element # elements))"
  by simp

lemma extract_after_checks:
  "query ''html'' = Inr testElement \<Longrightarrow>
   extractWordPressPosts (Cheerio query) extractPost extractPageContent url ts now =
     (case trySelectors query extractPost postSelectors of
        Some found \<Rightarrow> found
      | None \<Rightarrow>
          (case extractPageContent of
             Inl pageError \<Rightarrow> []
           | Inr None \<Rightarrow> []
           | Inr (Some pageContent) \<Rightarrow> [pageContent]))"
  by (simp add: extractWordPressPosts_def)

section \<open>Merging a group\<close>

lemma firstSeen_set [simp]: "set (firstSeen xs) = set xs"
  by (induction xs) auto

lemma firstSeen_distinct [simp]: "distinct (firstSeen xs)"
  by (induction xs) auto

lemma firstSeen_append:
  "firstSeen (xs @ ys) = firstSeen xs @ filter (\<lambda>y. y \<notin> set xs) (firstSeen ys)"
proof (induction xs)
  case Nil
  then show ?case by simp
next
  case (Cons x xs)
  then show ?case by (auto intro!: filter_cong)
qed

lemma foldl_setAdd:
  "foldl setAdd s ys = s @ filter (\<lambda>y. y \<notin> set s) (firstSeen ys)"
proof (induction ys arbitrary: s)
  case Nil
  then show ?case by simp
next
  case (Cons y ys)
  show ?case
  proof (cases "y \<in> set s")
    case True
    then have "filter (\<lambda>z. z \<notin> set s) (filter (\<lambda>z. z \<noteq> y) (firstSeen ys)) =
               filter (\<lambda>z. z \<notin> set s) (firstSeen ys)"
      by (auto intro: filter_cong)
    with True Cons show ?thesis by (simp add: setAdd_def)
  next
    case False
    then show ?thesis using Cons [of "s @ [y]"] by (simp add: setAdd_def conj_commute)
  qed
qed

lemma listOf_simps [simp]: "listOf (Some xs) = xs" "listOf None = []"
  by (simp_all add: listOf_def)

lemma addAll_listOf: "addAll s v = s @ filter (\<lambda>y. y \<notin> set s) (firstSeen (listOf v))"
  by (cases v) (simp_all add: addAll_def listOf_def foldl_setAdd)

lemma foldl_addAll:
  "foldl (\<lambda>s p. addAll s (field p)) s ps =
   s @ filter (\<lambda>y. y \<notin> set s) (firstSeen (concat (map (\<lambda>p. listOf (field p)) ps)))"
proof (induction ps arbitrary: s)
  case Nil
  then show ?case by simp
next
  case (Cons p ps)
  show ?case
    using Cons [of "addAll s (field p)"]
    by (auto simp add: addAll_listOf firstSeen_append intro!: filter_cong)
qed

lemma union_firstSeen:
  "foldl (\<lambda>s p. addAll s (field p)) [] ps = firstSeenUnion field ps"
  by (simp add: foldl_addAll firstSeenUnion_def)

lemma set_firstSeenUnion:
  "set (firstSeenUnion field ps) = (\<Union>p\<in>set ps. set (listOf (field p)))"
  by (simp add: firstSeenUnion_def)

lemma firstSeenUnion_sorted_set:
  "set (firstSeenUnion field (sortByContentLength ps)) = (\<Union>p\<in>set ps. set (listOf (field p)))"
  by (simp add: set_firstSeenUnion sortByContentLength_def)

lemma sortByContentLength_Nil [simp]: "sortByContentLength ps = [] \<longleftrightarrow> ps = []"
  by (metis length_sort length_0_conv sortByContentLength_def)

lemma mergePosts_many:
  assumes "1 < length ps" and "sortByContentLength ps = best # others"
  shows "mergePosts ps =
     Inr (best\<lparr> categories := Some (firstSeenUnion categories (best # others)),
                tags := Some (firstSeenUnion tags (best # others)),
                metadata := Some ((metaOf best)\<lparr>
                  mergedFrom := Some (length ps),
                  sourceTimestamps :=
                    Some (map orEmpty (filter truthy (map metaTimestamp (best # others)))) \<rparr>) \<rparr>,
          best\<lparr> categories := Some (firstSeenUnion categories (best # others)),
                tags := Some (firstSeenUnion tags (best # others)),
                metadata := Some ((metaOf best)\<lparr>
                  mergedFrom := Some (length ps),
                  sourceTimestamps :=
                    Some (map orEmpty (filter truthy (map metaTimestamp (best # others)))) \<rparr>) \<rparr>
          # others)"
proof -
  have n: "length (best # others) = length ps"
    using assms(2) by (metis length_sort sortByContentLength_def)
  obtain p q qs where ps: "ps = p # q # qs"
    using assms(1) by (cases ps; cases "tl ps") auto
  have "mergePosts (p # q # qs) =
     (case sortByContentLength (p # q # qs) of
        [] \<Rightarrow> Inl (TypeError ''Cannot set properties of undefined'')
      | bestPost # others \<Rightarrow>
          let sortedPosts = bestPost # others;
              allCategories = foldl (\<lambda>s p. addAll s (categories p)) [] sortedPosts;
              allTags = foldl (\<lambda>s p. addAll s (tags p)) [] sortedPosts;
              meta = (case metadata bestPost of None \<Rightarrow> emptyMetadata | Some m \<Rightarrow> m);
              merged = bestPost\<lparr>
                categories := Some allCategories,
                tags := Some allTags,
                metadata := Some (meta\<lparr>
                  mergedFrom := Some (length sortedPosts),
                  sourceTimestamps :=
                    Some (map orEmpty (filter truthy (map metaTimestamp sortedPosts))) \<rparr>) \<rparr>
          in Inr (merged, merged # others))"
    by (simp add: mergePosts_def)
  then show ?thesis
    using assms(2) n unfolding ps
    by (simp add: Let_def union_firstSeen metaOf_def del: foldl_Cons)
qed

lemma mergePosts_one: "mergePosts [p] = Inr (p, [p])"
  by (simp add: mergePosts_def)

lemma sortByContentLength_sorted:
  "sorted_wrt (\<lambda>a b. contentLength b \<le> contentLength a) (sortByContentLength ps)"
proof -
  have "sorted (map (\<lambda>p. - int (contentLength p)) (sortByContentLength ps))"
    by (simp add: sortByContentLength_def)
  then show ?thesis
    by (simp add: sorted_wrt_map)
qed

lemma sortByContentLength_stable:
  "filter (\<lambda>q. contentLength q = k) (sortByContentLength ps) =
   filter (\<lambda>q. contentLength q = k) ps"
  using sort_key_stable [of "\<lambda>p. - int (contentLength p)" "- int k" ps]
  by (simp add: sortByContentLength_def)

lemma sortByContentLength_best:
  assumes "sortByContentLength ps = best # others"
  shows "best \<in> set ps"
    and "\<forall>q\<in>set ps. contentLength q \<le> contentLength best"
    and "mset (best # others) = mset ps"
    and "filter (\<lambda>q. contentLength q = contentLength best) ps =
         best # filter (\<lambda>q. contentLength q = contentLength best) others"
proof -
  have s: "set (best # others) = set ps"
    using assms by (metis set_sort sortByContentLength_def)
  then show "best \<in> set ps" by auto
  have "sorted_wrt (\<lambda>a b. contentLength b \<le> contentLength a) (best # others)"
    using sortByContentLength_sorted [of ps] assms by simp
  then show "\<forall>q\<in>set ps. contentLength q \<le> contentLength best"
    using s by auto
  show "mset (best # others) = mset ps"
    using assms by (metis mset_sort sortByContentLength_def)
  show "filter (\<lambda>q. contentLength q = contentLength best) ps =
        best # filter (\<lambda>q. contentLength q = contentLength best) others"
    using sortByContentLength_stable [of "contentLength best" ps] assms by simp
qed

text \<open>
  Claim C4, as stated, fails in the order: \<open>mergePosts\<close> sorts the group in place before it
  collects the categories and tags, so the union is in first-seen order across the group as
  sorted, not across the group as it was given. For the shorter capture followed by the
  longer one the categories come out as \<open>update, news\<close>, while first-seen order across the
  group is \<open>news, update\<close>.
\<close>

theorem mergePosts_order_counterexample:
  "map_option categories (mergedOf [shortPost, longPost]) = Some (Some [''update'', ''news'']) \<and>
   map_option tags (mergedOf [shortPost, longPost]) = Some (Some [''b'', ''a'']) \<and>
   firstSeenUnion categories [shortPost, longPost] = [''news'', ''update''] \<and>
   firstSeenUnion tags [shortPost, longPost] = [''a'', ''b'']"
  by (simp add: mergedOf_def mergePosts_def sortByContentLength_def contentLength_def
      shortPost_def longPost_def emptyPost_def orEmpty_def addAll_def setAdd_def
      firstSeenUnion_def listOf_def Let_def)

text \<open>
  Claim C4, amended: for a group of more than one post, the categories and the tags of the
  merged post are the union of the categories and the tags of all members, nothing lost
  and nothing added, duplicates removed by equality, in first-seen order across the group as
  \<open>mergePosts\<close> has sorted it (largest \<open>content.length + fullHtml.length\<close> first); and
  \<open>metadata.mergedFrom\<close> is the size of the group.
\<close>

theorem mergePosts_union:
  assumes "1 < length ps"
  shows "\<exists>m arr. mergePosts ps = Inr (m, arr) \<and>
           categories m = Some (firstSeenUnion categories (sortByContentLength ps)) \<and>
           tags m = Some (firstSeenUnion tags (sortByContentLength ps)) \<and>
           set (listOf (categories m)) = (\<Union>p\<in>set ps. set (listOf (categories p))) \<and>
           set (listOf (tags m)) = (\<Union>p\<in>set ps. set (listOf (tags p))) \<and>
           distinct (listOf (categories m)) \<and> distinct (listOf (tags m)) \<and>
           mergedFrom (metaOf m) = Some (length ps)"
proof -
  from assms have "sortByContentLength ps \<noteq> []" by auto
  then obtain best others where s: "sortByContentLength ps = best # others"
    by (cases "sortByContentLength ps") auto
  have c: "set (firstSeenUnion categories (best # others)) =
           (\<Union>p\<in>set ps. set (listOf (categories p)))"
    using firstSeenUnion_sorted_set [of categories ps] s by simp
  have t: "set (firstSeenUnion tags (best # others)) = (\<Union>p\<in>set ps. set (listOf (tags p)))"
    using firstSeenUnion_sorted_set [of tags ps] s by simp
  have d: "distinct (firstSeenUnion f (best # others))" for f
    by (simp add: firstSeenUnion_def)
  show ?thesis
    using mergePosts_many [OF assms s] c t d
    by (simp add: s metaOf_def)
qed

theorem mergePosts_union_witness:
  "1 < length [shortPost, longPost] \<and>
   (\<exists>m arr. mergePosts [shortPost, longPost] = Inr (m, arr) \<and>
      set (listOf (categories m)) = {''news'', ''update''} \<and>
      set (listOf (tags m)) = {''a'', ''b''} \<and>
      mergedFrom (metaOf m) = Some 2)"
proof -
  have h: "1 < length [shortPost, longPost]" by simp
  have c: "(\<Union>p\<in>set [shortPost, longPost]. set (listOf (categories p))) = {''news'', ''update''}"
    by (auto simp: shortPost_def longPost_def emptyPost_def listOf_def)
  have t: "(\<Union>p\<in>set [shortPost, longPost]. set (listOf (tags p))) = {''a'', ''b''}"
    by (auto simp: shortPost_def longPost_def emptyPost_def listOf_def)
  from mergePosts_union [OF h] obtain m arr where
    "mergePosts [shortPost, longPost] = Inr (m, arr)"
    "set (listOf (categories m)) = (\<Union>p\<in>set [shortPost, longPost]. set (listOf (categories p)))"
    "set (listOf (tags m)) = (\<Union>p\<in>set [shortPost, longPost]. set (listOf (tags p)))"
    "mergedFrom (metaOf m) = Some (length [shortPost, longPost])"
    by blast
  with c t h show ?thesis by auto
qed

text \<open>
  Claim C9, as stated, fails for a group of one: the post is returned as it is, its
  categories keep their duplicates, and neither \<open>metadata.mergedFrom\<close> nor
  \<open>metadata.sourceTimestamps\<close> is written.
\<close>

theorem mergePosts_single_untouched:
  "mergedOf [lonePost] = Some lonePost \<and>
   categories lonePost = Some [''news'', ''news''] \<and>
   mergedFrom (metaOf lonePost) = None \<and>
   sourceTimestamps (metaOf lonePost) = None"
  by (simp add: mergedOf_def mergePosts_def lonePost_def emptyPost_def metaOf_def
      emptyMetadata_def)

text \<open>
  Claim C9, amended: on a group that is not empty \<open>mergePosts\<close> returns the member whose
  \<open>content.length + fullHtml.length\<close> is largest (the first such member of the group), with
  its title, content, excerpt, author, permalink, fullHtml, date, id, classes and uniqueId
  and the other fields of its metadata unchanged. The input array is left sorted by
  descending \<open>content.length + fullHtml.length\<close>, a stable permutation of the group whose
  first element is the returned post. For a group of more than one post the categories,
  the tags, \<open>metadata.mergedFrom\<close> and \<open>metadata.sourceTimestamps\<close> of that member are
  overwritten; a group of one is returned untouched.
\<close>

theorem mergePosts_frame:
  assumes "ps \<noteq> []"
  shows "\<exists>best others m.
           sortByContentLength ps = best # others \<and>
           mergePosts ps = Inr (m, m # others) \<and>
           best \<in> set ps \<and>
           (\<forall>q\<in>set ps. contentLength q \<le> contentLength best) \<and>
           filter (\<lambda>q. contentLength q = contentLength best) ps =
             best # filter (\<lambda>q. contentLength q = contentLength best) others \<and>
           mset (best # others) = mset ps \<and>
           sorted_wrt (\<lambda>a b. contentLength b \<le> contentLength a) (best # others) \<and>
           title m = title best \<and> content m = content best \<and> excerpt m = excerpt best \<and>
           author m = author best \<and> permalink m = permalink best \<and>
           fullHtml m = fullHtml best \<and> date m = date best \<and> id_field m = id_field best \<and>
           classes m = classes best \<and> uniqueId m = uniqueId best \<and>
           sourceUrl (metaOf m) = sourceUrl (metaOf best) \<and>
           timestamp (metaOf m) = timestamp (metaOf best) \<and>
           selector (metaOf m) = selector (metaOf best) \<and>
           extractedAt (metaOf m) = extractedAt (metaOf best) \<and>
           error (metaOf m) = error (metaOf best) \<and>
           type_field (metaOf m) = type_field (metaOf best) \<and>
           (length ps = 1 \<longrightarrow> ps = [best] \<and> m = best) \<and>
           (1 < length ps \<longrightarrow>
              categories m = Some (firstSeenUnion categories (best # others)) \<and>
              tags m = Some (firstSeenUnion tags (best # others)) \<and>
              mergedFrom (metaOf m) = Some (length ps) \<and>
              sourceTimestamps (metaOf m) =
                Some (map orEmpty (filter truthy (map metaTimestamp (best # others)))))"
proof -
  from assms have "sortByContentLength ps \<noteq> []" by auto
  then obtain best others where s: "sortByContentLength ps = best # others"
    by (cases "sortByContentLength ps") auto
  note b = sortByContentLength_best [OF s]
  have o: "sorted_wrt (\<lambda>a b. contentLength b \<le> contentLength a) (best # others)"
    using sortByContentLength_sorted [of ps] s by simp
  show ?thesis
  proof (cases "length ps = 1")
    case True
    then obtain p where p: "ps = [p]"
      by (cases ps) auto
    with s have "best = p" "others = []"
      by (simp_all add: sortByContentLength_def)
    with p b o s show ?thesis
      by (simp add: mergePosts_one)
  next
    case False
    with assms have l: "1 < length ps"
      by (cases ps) auto
    show ?thesis
      using mergePosts_many [OF l s] b o s l
      by (simp add: metaOf_def)
  qed
qed

theorem mergePosts_frame_witness:
  "[shortPost, longPost] \<noteq> [] \<and>
   (\<exists>m. mergePosts [shortPost, longPost] = Inr (m, [m, shortPost]) \<and>
      title m = title longPost \<and> content m = content longPost \<and>
      fullHtml m = fullHtml longPost \<and> id_field m = id_field longPost \<and>
      mergedFrom (metaOf m) = Some 2)"
proof -
  have h: "[shortPost, longPost] \<noteq> []" by simp
  have s: "sortByContentLength [shortPost, longPost] = [longPost, shortPost]"
    by (simp add: sortByContentLength_def contentLength_def shortPost_def longPost_def
        emptyPost_def orEmpty_def)
  from mergePosts_frame [OF h] s show ?thesis
    by auto
qed

section \<open>The normalizer\<close>

lemmas normalizer_eval =
  cleanWebArchiveUrls_def fullArchivePattern_def basicArchivePattern_def
  remainingArchivePattern_def doubleProtocolPattern_def lnexunPort80Pattern_def
  lnexunHttpPattern_def lnexunWwwPattern_def srcPattern_def hrefPattern_def
  archivePrefix_def archiveHost_def Let_def

lemma nested_once: "cleanWebArchiveUrls nestedArchiveUrl = ''https://https://example.com/x''"
  by (simp add: nestedArchiveUrl_def normalizer_eval string_eval char_eval)

lemma nested_twice: "cleanWebArchiveUrls ''https://https://example.com/x'' = ''https://example.com/x''"
  by (simp add: normalizer_eval string_eval char_eval)

text \<open>
  An archive URL wrapped four times leaves a doubled protocol after one pass, which a
  second pass removes.
\<close>

lemma nested_not_idempotent:
  "cleanWebArchiveUrls (cleanWebArchiveUrls nestedArchiveUrl) \<noteq> cleanWebArchiveUrls nestedArchiveUrl"
  by (simp add: nested_once nested_twice)

lemma protocolRelative_once: "cleanWebArchiveUrls protocolRelativeSrc = doubledProtocolSrc"
  by (simp add: protocolRelativeSrc_def doubledProtocolSrc_def normalizer_eval string_eval
      char_eval)

lemma protocolRelative_twice: "cleanWebArchiveUrls doubledProtocolSrc = singleProtocolSrc"
  by (simp add: doubledProtocolSrc_def singleProtocolSrc_def normalizer_eval string_eval
      char_eval)

lemma doubled_not_single: "singleProtocolSrc \<noteq> doubledProtocolSrc"
  by (simp add: doubledProtocolSrc_def singleProtocolSrc_def)

text \<open>
  Claim C5 on the code: the normalizer is not idempotent on a protocol-relative \<open>src\<close>
  that points into the archive. Pattern 3 deletes the archive prefix, the pass for the
  legacy host name writes \<open>https://lnexun.com/\<close> behind the two slashes, and the pass for
  \<open>src\<close> then puts a second \<open>https:\<close> in front: the result holds \<open>https://https://\<close>.
  Pattern 4, which is to clean up doubled protocols, has already run, so only a second
  call removes the doubled protocol, and the second result differs from the first.
\<close>

theorem cleanWebArchiveUrls_doubled_protocol:
  "cleanWebArchiveUrls protocolRelativeSrc = doubledProtocolSrc \<and>
   cleanWebArchiveUrls (cleanWebArchiveUrls protocolRelativeSrc) = singleProtocolSrc \<and>
   cleanWebArchiveUrls (cleanWebArchiveUrls protocolRelativeSrc) \<noteq>
     cleanWebArchiveUrls protocolRelativeSrc"
  by (simp only: protocolRelative_once protocolRelative_twice doubled_not_single
      not_False_eq_True simp_thms)

theorem cleanWebArchiveUrls_doubled_protocol_witness:
  "includesStr (cleanWebArchiveUrls protocolRelativeSrc) ''https://https://'' \<and>
   \<not> includesStr (cleanWebArchiveUrls (cleanWebArchiveUrls protocolRelativeSrc)) ''https://https://''"
proof -
  have a: "cleanWebArchiveUrls protocolRelativeSrc = doubledProtocolSrc"
    and b: "cleanWebArchiveUrls (cleanWebArchiveUrls protocolRelativeSrc) = singleProtocolSrc"
    using cleanWebArchiveUrls_doubled_protocol by blast+
  from a b have c: "cleanWebArchiveUrls doubledProtocolSrc = singleProtocolSrc"
    by simp
  show ?thesis
    unfolding a c
    by (simp add: doubledProtocolSrc_def singleProtocolSrc_def startsWith_def DQ_def)
qed

section \<open>Resolving authors\<close>

lemma find_weak_cong: "P = Q \<Longrightarrow> find P xs = find Q xs"
  by simp

lemma map_of_weak_cong: "k = k' \<Longrightarrow> map_of ps k = map_of ps k'"
  by simp

lemma map_of_Cons_eval: "map_of ((k, v) # ps) key = (if key = k then Some v else map_of ps key)"
  by simp

lemmas resolver_eval =
  hasProperty_def exactMatch_def wordMatch_def isUsernameChar_def isEmailChar_def Let_def
  map_of_Cons_eval

lemma unmatched_completely:
  "getAuthorLogin AUTHORS pool (Some ''Completely New Person'') =
   createNewUser pool (Some ''Completely New Person'')"
  unfolding getAuthorLogin_def AUTHORS_def
  by (simp add: resolver_eval string_eval char_eval del: map_of.simps
      cong: find_weak_cong map_of_weak_cong)

lemma unmatched_another:
  "getAuthorLogin AUTHORS pool (Some ''Another Writer'') =
   createNewUser pool (Some ''Another Writer'')"
  unfolding getAuthorLogin_def AUTHORS_def
  by (simp add: resolver_eval string_eval char_eval del: map_of.simps
      cong: find_weak_cong map_of_weak_cong)

lemma unmatched_madhav:
  "getAuthorLogin AUTHORS pool (Some ''MadhavNarayan'') =
   createNewUser pool (Some ''MadhavNarayan'')"
  unfolding getAuthorLogin_def AUTHORS_def
  by (simp add: resolver_eval string_eval char_eval del: map_of.simps
      cong: find_weak_cong map_of_weak_cong)

lemma madhav_is_key: "map_of AUTHORS ''MadhavNarayan'' \<noteq> None"
  unfolding AUTHORS_def
  by (simp add: map_of_Cons_eval del: map_of.simps cong: map_of_weak_cong)

lemma getAuthorLogin_direct:
  assumes "trim s \<noteq> []" and "map_of tbl (trim (toLowerCase s)) \<noteq> None"
  shows "getAuthorLogin tbl pool (Some s) = (trim (toLowerCase s), pool)"
proof -
  from assms(1) have "s \<noteq> []" by (auto simp: trim_def)
  with assms show ?thesis
    by (simp add: getAuthorLogin_def hasProperty_def truthy_def orEmpty_def)
qed

text \<open>
  Claim C3 on the code: \<open>MadhavNarayan\<close> is a login key of the fixed table, and the author
  string \<open>MadhavNarayan\<close> is not resolved to it. The string is put in lower case before the
  table is read, no key matches it, and a new identity \<open>madhavnarayan\<close> with id 1001 is made.
\<close>

theorem getAuthorLogin_uppercase_key:
  "map_of AUTHORS ''MadhavNarayan'' \<noteq> None \<and>
   getAuthorLogin AUTHORS [] (Some ''MadhavNarayan'') =
     (''madhavnarayan'',
      [(''madhavnarayan'',
        \<lparr> author_id = 1001, login = ''madhavnarayan'',
          email = ''ananay+madhavnarayan@exunclan.com'', display_name = ''MadhavNarayan'',
          first_name = ''MadhavNarayan'', last_name = [] \<rparr>)])"
  by (simp add: madhav_is_key unmatched_madhav createNewUser_def resolver_eval string_eval
      char_eval)

theorem getAuthorLogin_uppercase_key_witness:
  "fst (getAuthorLogin AUTHORS [] (Some ''MadhavNarayan'')) = ''madhavnarayan'' \<and>
   snd (getAuthorLogin AUTHORS [] (Some ''MadhavNarayan'')) \<noteq> []"
  using getAuthorLogin_uppercase_key by simp

text \<open>
  Claim C2 on the code: an unmatched author resolved twice, then another unmatched author.
  The second call overwrites the entry of the first, so the pool still has one entry when
  the third call takes \<open>1000 + size + 1\<close>: both identities end with id 1002.
\<close>

theorem resolveAll_reuses_id:
  "resolveAll AUTHORS []
     [Some ''Completely New Person'', Some ''Completely New Person'', Some ''Another Writer''] =
     [(''completely.person'',
       \<lparr> author_id = 1002, login = ''completely.person'',
         email = ''ananay+completelyperson@exunclan.com'',
         display_name = ''Completely New Person'', first_name = ''Completely'',
         last_name = ''Person'' \<rparr>),
      (''another.writer'',
       \<lparr> author_id = 1002, login = ''another.writer'',
         email = ''ananay+anotherwriter@exunclan.com'', display_name = ''Another Writer'',
         first_name = ''Another'', last_name = ''Writer'' \<rparr>)] \<and>
   \<not> distinct (allAuthorIds AUTHORS
        (resolveAll AUTHORS []
          [Some ''Completely New Person'', Some ''Completely New Person'',
           Some ''Another Writer'']))"
  by (simp add: unmatched_completely unmatched_another createNewUser_def allAuthorIds_def
      resolver_eval string_eval char_eval)

theorem resolveAll_reuses_id_witness:
  "map (author_id \<circ> snd)
     (resolveAll AUTHORS []
       [Some ''Completely New Person'', Some ''Completely New Person'', Some ''Another Writer'']) =
   [1002, 1002]"
  using resolveAll_reuses_id by simp

section \<open>The serializer\<close>

lemma digit_not_space: "isDigit c \<Longrightarrow> \<not> isSpace c"
  by (cases c) (auto simp: isDigit_Char isSpace_Char)

lemma digit_not_sign: "isDigit c \<Longrightarrow> c \<noteq> CHR ''-'' \<and> c \<noteq> CHR ''+'' \<and> c \<noteq> CHR ''x'' \<and> c \<noteq> CHR ''X''"
  by (cases c) (auto simp: isDigit_Char)

lemma parseInt_digits:
  assumes "ds \<noteq> []" and "list_all isDigit ds"
  shows "parseInt ds \<noteq> None"
proof -
  from assms obtain c cs where ds: "ds = c # cs" and c: "isDigit c" and cs: "list_all isDigit cs"
    by (cases ds) auto
  have s1: "dropWhile isSpace ds = ds"
    using ds c digit_not_space by simp
  have hx: "\<not> startsWith ds ''0x''" "\<not> startsWith ds ''0X''"
    using ds cs digit_not_sign by (cases cs; auto simp: startsWith_def)+
  have tw: "takeWhile isDigit ds = ds"
    using assms(2) by (simp add: list_all_iff takeWhile_eq_all_conv)
  show ?thesis
    using s1 hx tw assms(1) digit_not_sign [OF c] ds
    by (simp add: parseInt_def Let_def)
qed

lemma matchPostNumber_Some:
  "matchPostNumber s = Some ds \<Longrightarrow>
   s \<noteq> [] \<and> includesStr s ''post-'' \<and> ds \<noteq> [] \<and> list_all isDigit ds"
proof (induction s)
  case Nil
  then show ?case by simp
next
  case (Cons c cs)
  show ?case
  proof (cases "lit ''post-'' (c # cs)")
    case None
    with Cons show ?thesis by auto
  next
    case (Some r)
    then have sw: "startsWith (c # cs) ''post-''"
      by (auto simp: lit_def split: if_splits)
    show ?thesis
    proof (cases "takeWhile isDigit r = []")
      case True
      with Some Cons show ?thesis by auto
    next
      case False
      with Some Cons.prems have "ds = takeWhile isDigit r" by simp
      with False sw show ?thesis
        by (auto simp: list_all_iff dest: set_takeWhileD)
    qed
  qed
qed

lemma extractPostId_known:
  assumes "postIdKnown p"
  shows "extractPostId e1 p = extractPostId e2 p"
proof -
  define i where "i = orEmpty (id_field p)"
  define cl where "cl = orEmpty (classes p)"
  define ts where "ts = orEmpty (metaTimestamp p)"
  define byId where "byId = (if i \<noteq> [] \<and> list_all isDigit i then parseInt i else None)"
  define byIdNumber where "byIdNumber =
    (if i \<noteq> [] \<and> includesStr i ''post-''
     then (case matchPostNumber i of None \<Rightarrow> None | Some ds \<Rightarrow> parseInt ds) else None)"
  define byClass where "byClass =
    (if cl \<noteq> [] \<and> includesStr cl ''post-''
     then (case matchPostNumber cl of None \<Rightarrow> None | Some ds \<Rightarrow> parseInt ds) else None)"
  define byClock where "byClock = (\<lambda>e :: readings.
    if truthy (metaTimestamp p)
    then (case parseInt ts of None \<Rightarrow> idNow e | Some n \<Rightarrow> if n = 0 then idNow e else n)
    else idNow e + idRandom e)"
  have e: "extractPostId e p =
    (case byId of
       Some n \<Rightarrow> n
     | None \<Rightarrow> (case byIdNumber of
                  Some n \<Rightarrow> n
                | None \<Rightarrow> (case byClass of Some n \<Rightarrow> n | None \<Rightarrow> byClock e)))" for e
    unfolding extractPostId_def Let_def byId_def byIdNumber_def byClass_def byClock_def
      i_def cl_def ts_def
    by (rule refl)
  have num: "matchPostNumber s \<noteq> None \<Longrightarrow>
    (if s \<noteq> [] \<and> includesStr s ''post-''
     then (case matchPostNumber s of None \<Rightarrow> None | Some ds \<Rightarrow> parseInt ds) else None) \<noteq> None"
    for s
  proof -
    assume "matchPostNumber s \<noteq> None"
    then obtain ds where ds: "matchPostNumber s = Some ds" by auto
    from matchPostNumber_Some [OF ds] parseInt_digits [of ds] ds show ?thesis by simp
  qed
  from assms consider
    (digits) "i \<noteq> [] \<and> list_all isDigit i"
    | (idNumber) "matchPostNumber i \<noteq> None"
    | (classNumber) "matchPostNumber cl \<noteq> None"
    | (stamp) "ts \<noteq> [] \<and> parseInt ts \<noteq> None \<and> parseInt ts \<noteq> Some 0"
    unfolding postIdKnown_def Let_def i_def cl_def ts_def by blast
  then show ?thesis
  proof cases
    case digits
    then have "byId \<noteq> None"
      using parseInt_digits [of i] by (simp add: byId_def)
    then show ?thesis by (auto simp: e)
  next
    case idNumber
    then have "byIdNumber \<noteq> None"
      unfolding byIdNumber_def by (rule num)
    then show ?thesis by (cases byId) (auto simp: e)
  next
    case classNumber
    then have "byClass \<noteq> None"
      unfolding byClass_def by (rule num)
    then show ?thesis by (cases byId; cases byIdNumber) (auto simp: e)
  next
    case stamp
    then have "truthy (metaTimestamp p)"
      by (cases "metaTimestamp p") (auto simp: ts_def truthy_def orEmpty_def)
    with stamp have "byClock e1 = byClock e2"
      by (auto simp: byClock_def)
    then show ?thesis by (cases byId; cases byIdNumber; cases byClass) (auto simp: e)
  qed
qed

lemma formatWordPressDate_stamped:
  "truthy ts \<Longrightarrow> formatWordPressDate h now1 ts = formatWordPressDate h now2 ts"
  by (simp add: formatWordPressDate_def)

lemma convertPostToWxr_known:
  assumes "truthy (metaTimestamp p)" and "postIdKnown p"
  shows "convertPostToWxr h tbl e1 pool p = convertPostToWxr h tbl e2 pool p"
  unfolding convertPostToWxr_def
  using extractPostId_known [OF assms(2), of e1 e2]
    formatWordPressDate_stamped [OF assms(1), of h "dateNow e1" "dateNow e2"]
  by simp

lemma convertPosts_known:
  assumes "\<forall>p\<in>set ps. truthy (metaTimestamp p) \<and> postIdKnown p"
  shows "convertPosts h tbl envs1 i pool ps = convertPosts h tbl envs2 j pool ps"
  using assms
proof (induction ps arbitrary: i j pool)
  case Nil
  show ?case by simp
next
  case (Cons p ps)
  then have p: "convertPostToWxr h tbl (envs1 i) pool p = convertPostToWxr h tbl (envs2 j) pool p"
    using convertPostToWxr_known by simp
  from Cons have "convertPosts h tbl envs1 (Suc i) pool' ps =
                  convertPosts h tbl envs2 (Suc j) pool' ps" for pool'
    by simp
  with p show ?case
    by (simp split: sum.splits prod.splits)
qed

lemma getAuthorLogin_absent: "getAuthorLogin tbl pool None = (''admin'', pool)"
  by (simp add: getAuthorLogin_def truthy_def)

lemma extractPostId_undated:
  "extractPostId firstRun undatedPage = 1700000000017 \<and>
   extractPostId secondRun undatedPage = 1700000060017"
  by (simp add: extractPostId_def undatedPage_def emptyPost_def firstRun_def secondRun_def
      metaTimestamp_def matchPostNumber.simps string_eval char_eval Let_def)

text \<open>
  Claim C1, as stated, fails: a page without a numeric id and without a capture time
  stamp gets \<open>Date.now() + Math.floor(Math.random() * 1000)\<close> as its post id, so two runs
  at different times emit different \<open>wp:post_id\<close> elements and different documents, with
  the same generation time stamp and the same dates.
\<close>

theorem serializeRun_clock_dependent:
  "serializeRun epochPlatform AUTHORS ''Thu, 01 Jan 1970 00:00:00 GMT'' firstReadings [undatedPage] \<noteq>
   serializeRun epochPlatform AUTHORS ''Thu, 01 Jan 1970 00:00:00 GMT'' secondReadings [undatedPage] \<and>
   extractPostId firstRun undatedPage = 1700000000017 \<and>
   extractPostId secondRun undatedPage = 1700000060017"
proof -
  have a: "author undatedPage = None" "metaTimestamp undatedPage = None"
    by (simp_all add: undatedPage_def emptyPost_def metaTimestamp_def)
  have "convertPostToWxr epochPlatform AUTHORS firstRun [] undatedPage \<noteq>
        convertPostToWxr epochPlatform AUTHORS secondRun [] undatedPage"
    unfolding convertPostToWxr_def
    by (simp add: extractPostId_undated a getAuthorLogin_absent formatWordPressDate_def
        epochPlatform_def truthy_def showInt_def digitChar_def Let_def)
  then have "convertPosts epochPlatform AUTHORS firstReadings 0 [] [undatedPage] \<noteq>
             convertPosts epochPlatform AUTHORS secondReadings 0 [] [undatedPage]"
    by (auto simp: firstReadings_def secondReadings_def split: sum.splits prod.splits)
  then have "serializeRun epochPlatform AUTHORS ''Thu, 01 Jan 1970 00:00:00 GMT'' firstReadings
               [undatedPage] \<noteq>
             serializeRun epochPlatform AUTHORS ''Thu, 01 Jan 1970 00:00:00 GMT'' secondReadings
               [undatedPage]"
    by (auto simp: serializeRun_def createWxrFile_def a getAuthorLogin_absent Let_def
        split: sum.splits prod.splits)
  with extractPostId_undated show ?thesis by simp
qed

text \<open>
  Claim C1, amended: when every post of the list has a capture time stamp and a number of
  its own (a numeric id, \<open>post-\<close> and digits in its id or classes, or a time stamp that
  \<open>parseInt\<close> reads as a number other than 0), two serialization runs on the same list, the
  same identity table and the same generation time stamp, each starting with an empty
  pool, give the same document and the same pool whatever the clock and the random source
  read; and \<open>extractPostId\<close> gives every post the same \<open>wp:post_id\<close> in both runs.
\<close>

theorem serializeRun_deterministic:
  assumes "\<forall>p\<in>set ps. truthy (metaTimestamp p) \<and> postIdKnown p"
  shows "serializeRun h tbl currentDate envs1 ps = serializeRun h tbl currentDate envs2 ps \<and>
         (\<forall>p\<in>set ps. extractPostId e1 p = extractPostId e2 p)"
proof -
  have "convertPosts h tbl envs1 0 pool ps = convertPosts h tbl envs2 0 pool ps" for pool
    using assms by (rule convertPosts_known)
  then have "serializeRun h tbl currentDate envs1 ps = serializeRun h tbl currentDate envs2 ps"
    by (simp add: serializeRun_def createWxrFile_def)
  moreover have "\<forall>p\<in>set ps. extractPostId e1 p = extractPostId e2 p"
    using assms extractPostId_known by blast
  ultimately show ?thesis by simp
qed

theorem serializeRun_deterministic_witness:
  "truthy (metaTimestamp markupTitlePost) \<and> postIdKnown markupTitlePost \<and>
   serializeRun epochPlatform AUTHORS ''Thu, 01 Jan 1970 00:00:00 GMT'' firstReadings
     [markupTitlePost] =
   serializeRun epochPlatform AUTHORS ''Thu, 01 Jan 1970 00:00:00 GMT'' secondReadings
     [markupTitlePost] \<and>
   extractPostId firstRun markupTitlePost = extractPostId secondRun markupTitlePost"
proof -
  have t: "truthy (metaTimestamp markupTitlePost)"
    by (simp add: markupTitlePost_def emptyPost_def emptyMetadata_def metaTimestamp_def truthy_def)
  have k: "postIdKnown markupTitlePost"
    by (simp add: postIdKnown_def markupTitlePost_def emptyPost_def string_eval char_eval)
  from t k have h: "\<forall>p\<in>set [markupTitlePost]. truthy (metaTimestamp p) \<and> postIdKnown p"
    by simp
  from serializeRun_deterministic [OF h, of epochPlatform AUTHORS
      "''Thu, 01 Jan 1970 00:00:00 GMT''" firstReadings secondReadings firstRun secondRun] t k
  show ?thesis by simp
qed

text \<open>
  Claim C6 on the code: the title of a post goes into the \<open>title\<close> element of its item
  as it is, neither escaped nor in a CDATA section. Every item that \<open>convertPostToWxr\<close>
  makes for a post with a non-empty title starts with the opening tags and the raw title.
\<close>

theorem convertPostToWxr_title_verbatim:
  assumes "title p = Some t" and "t \<noteq> []"
    and "convertPostToWxr h tbl env pool p = Inr (item, pool')"
  shows "\<exists>rest. item = [NL, TAB] @ ''<item>'' @ [NL, TAB, TAB] @ ''<title>'' @ t @ ''</title>'' @ rest"
  using assms
  by (auto simp: convertPostToWxr_def Let_def orElse_def orEmpty_def
      split: prod.splits sum.splits)

theorem convertPostToWxr_title_verbatim_witness:
  "title markupTitlePost = Some ''Q&A <live>'' \<and>
   (\<exists>rest pool'. convertPostToWxr epochPlatform AUTHORS firstRun [] markupTitlePost =
      Inr ([NL, TAB] @ ''<item>'' @ [NL, TAB, TAB] @ ''<title>Q&A <live></title>'' @ rest, pool'))"
proof -
  have t: "title markupTitlePost = Some ''Q&A <live>''"
    by (simp add: markupTitlePost_def emptyPost_def)
  have a: "author markupTitlePost = None"
    by (simp add: markupTitlePost_def emptyPost_def)
  have "\<exists>item pool'. convertPostToWxr epochPlatform AUTHORS firstRun [] markupTitlePost =
          Inr (item, pool')"
    by (simp add: convertPostToWxr_def a getAuthorLogin_absent formatWordPressDate_def
        epochPlatform_def Let_def)
  then obtain item pool' where
    c: "convertPostToWxr epochPlatform AUTHORS firstRun [] markupTitlePost = Inr (item, pool')"
    by blast
  from convertPostToWxr_title_verbatim [OF t _ c] obtain rest where
    "item = [NL, TAB] @ ''<item>'' @ [NL, TAB, TAB] @ ''<title>'' @ ''Q&A <live>'' @ ''</title>'' @ rest"
    by auto
  with c t show ?thesis by auto
qed

end
